theory Spec2Isabelle
  imports Main "HOL-Library.Sublist" "HOL-Library.Word"
begin

section \<open>The read-only API service of rkt\<close>

text \<open>
  A shallow embedding of the pod and image view assembly, the pod filters and the log
  stream writer of \<^verbatim>\<open>rkt/api_readonly_service.go\<close>. Go strings and byte slices are
  \<^typ>\<open>string\<close> (lists of bytes), slices are lists, \<^verbatim>\<open>int32\<close> and \<^verbatim>\<open>int64\<close> are
  \<^typ>\<open>32 word\<close> and \<^typ>\<open>64 word\<close>. Pointers to messages are the messages themselves:
  every message this file handles is allocated by the code that builds it
  (\<^verbatim>\<open>getApplist\<close>, \<^verbatim>\<open>getBasicPod\<close>, the protobuf decoder), so no element is nil.
\<close>

subsection \<open>The messages of the v1alpha API\<close>

text \<open>
  The message types are declared in the package \<^verbatim>\<open>api/v1alpha\<close>; the records hold the
  fields this file reads or writes, under the names of the Go fields prefixed by the
  name of the message.
\<close>

record KeyValue =
  Key :: string
  Value :: string

datatype PodState =
    POD_STATE_UNDEFINED
  | POD_STATE_EMBRYO
  | POD_STATE_PREPARING
  | POD_STATE_PREPARED
  | POD_STATE_RUNNING
  | POD_STATE_ABORTED_PREPARE
  | POD_STATE_EXITED
  | POD_STATE_DELETING
  | POD_STATE_GARBAGE

datatype AppState = APP_STATE_UNDEFINED | APP_STATE_RUNNING | APP_STATE_EXITED

datatype ImageType = IMAGE_TYPE_UNDEFINED | IMAGE_TYPE_APPC

record ImageFormat =
  ImageFormat_Type :: ImageType
  ImageFormat_Version :: string

text \<open>A nil \<^verbatim>\<open>[]byte\<close> manifest is \<^const>\<open>None\<close>; the zero value of every other field is
  the empty string, the empty list or the word 0.\<close>

record Image =
  Image_BaseFormat :: ImageFormat
  Image_Id :: string
  Image_Name :: string
  Image_Version :: string
  Image_ImportTimestamp :: "64 word"
  Image_Manifest :: "string option"
  Image_Size :: "64 word"
  Image_Annotations :: "KeyValue list"
  Image_Labels :: "KeyValue list"

record App =
  App_Name :: string
  App_Image :: Image
  App_State :: AppState
  App_ExitCode :: "32 word"
  App_Annotations :: "KeyValue list"

record Network =
  Network_Name :: string
  Network_Ipv4 :: string
  Network_Ipv6 :: string

record Pod =
  Pod_Id :: string
  Pod_Pid :: "32 word"
  Pod_State :: PodState
  Pod_Apps :: "App list"
  Pod_Networks :: "Network list"
  Pod_Manifest :: "string option"
  Pod_Annotations :: "KeyValue list"
  Pod_Cgroup :: string
  Pod_CreatedAt :: "64 word"
  Pod_StartedAt :: "64 word"
  Pod_GcMarkedAt :: "64 word"

record PodFilter =
  PodFilter_Ids :: "string list"
  PodFilter_States :: "PodState list"
  PodFilter_AppNames :: "string list"
  PodFilter_ImageIds :: "string list"
  PodFilter_NetworkNames :: "string list"
  PodFilter_Annotations :: "KeyValue list"
  PodFilter_Cgroups :: "string list"
  PodFilter_PodSubCgroups :: "string list"

subsection \<open>Key-value matching\<close>

text \<open>\<^verbatim>\<open>findInKeyValues\<close> returns the pair \<^verbatim>\<open>(value, ok)\<close> of the first entry with the key.\<close>

fun findInKeyValues :: "KeyValue list \<Rightarrow> string \<Rightarrow> string \<times> bool" where
  "findInKeyValues [] key = ('''', False)"
| "findInKeyValues (kv # kvs) key =
     (if Key kv = key then (Value kv, True) else findInKeyValues kvs key)"

fun containsAllKeyValues :: "KeyValue list \<Rightarrow> KeyValue list \<Rightarrow> bool" where
  "containsAllKeyValues actualKVs [] = True"
| "containsAllKeyValues actualKVs (requiredKV # requiredKVs) =
     (case findInKeyValues actualKVs (Key requiredKV) of
        (actualValue, ok) \<Rightarrow>
          if \<not> ok \<or> actualValue \<noteq> Value requiredKV then False
          else containsAllKeyValues actualKVs requiredKVs)"

subsection \<open>Strings and string sets\<close>

text \<open>\<^verbatim>\<open>strings.HasPrefix(s, prefix)\<close> and \<^verbatim>\<open>strings.HasSuffix(s, suffix)\<close> of the Go
  library compare the lengths and then a slice of \<^verbatim>\<open>s\<close>.\<close>

definition HasPrefix :: "string \<Rightarrow> string \<Rightarrow> bool" where
  "HasPrefix s pre = (length s \<ge> length pre \<and> take (length pre) s = pre)"

definition HasSuffix :: "string \<Rightarrow> string \<Rightarrow> bool" where
  "HasSuffix s suf = (length s \<ge> length suf \<and> drop (length s - length suf) s = suf)"

definition TrimSuffix :: "string \<Rightarrow> string \<Rightarrow> string" where
  "TrimSuffix s suf = (if HasSuffix s suf then take (length s - length suf) s else s)"

text \<open>Modelled from the spec: the string set of the package \<^verbatim>\<open>pkg/set\<close> is not under
  src/. A set built from a slice is kept as that slice; \<^verbatim>\<open>Has\<close> is membership ("id
  membership") and \<^verbatim>\<open>HasAll\<close> is membership of every item ("every listed name must
  appear among the pod's apps").\<close>

definition Has :: "string list \<Rightarrow> string \<Rightarrow> bool" where
  "Has s item = (item \<in> set s)"

definition HasAll :: "string list \<Rightarrow> string list \<Rightarrow> bool" where
  "HasAll s items = list_all (\<lambda>item. Has s item) items"

subsection \<open>The pod filter\<close>

text \<open>The loop over \<^verbatim>\<open>filter.States\<close> that sets \<^verbatim>\<open>foundState\<close>.\<close>

fun foundState :: "PodState \<Rightarrow> PodState list \<Rightarrow> bool" where
  "foundState st [] = False"
| "foundState st (state # states) = (if st = state then True else foundState st states)"

text \<open>The loop over \<^verbatim>\<open>filter.PodSubCgroups\<close> that sets \<^verbatim>\<open>matched\<close>; it runs only when
  the cgroup of the pod is not the empty string.\<close>

fun matchedLoop :: "string \<Rightarrow> string list \<Rightarrow> bool" where
  "matchedLoop podCgroup [] = False"
| "matchedLoop podCgroup (cgroup # cgroups) =
     (if HasPrefix cgroup podCgroup then True else matchedLoop podCgroup cgroups)"

definition matched :: "Pod \<Rightarrow> PodFilter \<Rightarrow> bool" where
  "matched pod flt =
     (if Pod_Cgroup pod \<noteq> '''' then matchedLoop (Pod_Cgroup pod) (PodFilter_PodSubCgroups flt)
      else False)"

definition satisfiesPodFilter :: "Pod \<Rightarrow> PodFilter \<Rightarrow> bool" where
  "satisfiesPodFilter pod flt =
     (if length (PodFilter_Ids flt) > 0 \<and> \<not> Has (PodFilter_Ids flt) (Pod_Id pod) then False
      else if length (PodFilter_States flt) > 0
              \<and> \<not> foundState (Pod_State pod) (PodFilter_States flt) then False
      else if length (PodFilter_AppNames flt) > 0
              \<and> \<not> HasAll (map App_Name (Pod_Apps pod)) (PodFilter_AppNames flt) then False
      else if length (PodFilter_ImageIds flt) > 0
              \<and> \<not> HasAll (map (\<lambda>app. Image_Id (App_Image app)) (Pod_Apps pod))
                    (PodFilter_ImageIds flt) then False
      else if length (PodFilter_NetworkNames flt) > 0
              \<and> \<not> HasAll (map Network_Name (Pod_Networks pod)) (PodFilter_NetworkNames flt)
           then False
      else if length (PodFilter_Annotations flt) > 0
              \<and> \<not> containsAllKeyValues (Pod_Annotations pod) (PodFilter_Annotations flt)
           then False
      else if length (PodFilter_Cgroups flt) > 0
              \<and> \<not> Has (PodFilter_Cgroups flt) (Pod_Cgroup pod) then False
      else if length (PodFilter_PodSubCgroups flt) > 0 \<and> \<not> matched pod flt then False
      else True)"

text \<open>The loop of \<^verbatim>\<open>satisfiesAnyPodFilters\<close> over the filters.\<close>

fun anyPodFilter :: "Pod \<Rightarrow> PodFilter list \<Rightarrow> bool" where
  "anyPodFilter pod [] = False"
| "anyPodFilter pod (flt # filters) =
     (if satisfiesPodFilter pod flt then True else anyPodFilter pod filters)"

definition satisfiesAnyPodFilters :: "Pod \<Rightarrow> PodFilter list \<Rightarrow> bool" where
  "satisfiesAnyPodFilters pod filters =
     (if length filters = 0 then True else anyPodFilter pod filters)"

subsection \<open>Errors, diagnostics and the collaborators\<close>

text \<open>A Go \<^verbatim>\<open>error\<close> value: one made from a message, or the error of a file that does not
  exist, the only kind \<^verbatim>\<open>os.IsNotExist\<close> recognises.\<close>

datatype error = Errorf string | ErrNotExist string

fun IsNotExist :: "error \<Rightarrow> bool" where
  "IsNotExist (ErrNotExist path) = True"
| "IsNotExist (Errorf msg) = False"

text \<open>One call of \<^verbatim>\<open>stderr.PrintE(fmt.Sprintf(format, args...), err)\<close>: the format, its
  arguments and the error. Every function below returns the entries it prints, in order.\<close>

datatype log_entry = PrintE string "string list" error

text \<open>A deferred failure of the Go runtime: the function does not return.\<close>

datatype 'a outcome = Panic | Return 'a

text \<open>\<^verbatim>\<open>time.Time\<close>, as far as this file observes it.\<close>

record Time =
  IsZero :: bool
  UnixNano :: "64 word"
  Unix :: "64 word"

text \<open>The manifests of the appc schema, after decoding: names, hashes and addresses are
  held as the strings their \<^verbatim>\<open>String()\<close> methods give.\<close>

record Annotation =
  Annotation_Name :: string
  Annotation_Value :: string

record Label =
  Label_Name :: string
  Label_Value :: string

record RuntimeApp =
  RuntimeApp_Name :: string
  RuntimeApp_Image_ID :: string
  RuntimeApp_Annotations :: "Annotation list"

record PodManifest =
  PodManifest_Apps :: "RuntimeApp list"
  PodManifest_Annotations :: "Annotation list"

record ImageManifest =
  ImageManifest_Name :: string
  ImageManifest_Labels :: "Label list"
  ImageManifest_Annotations :: "Annotation list"

record NetInfo =
  NetName :: string
  IP :: string

text \<open>The lifecycle states \<^verbatim>\<open>getState\<close> of a pod can return; \<open>OtherState\<close> is any value
  the switch of \<^verbatim>\<open>getBasicPod\<close> does not list.\<close>

datatype state =
  Embryo | Preparing | AbortedPrepare | Prepared | Running | Deleting | Exited | Garbage
  | OtherState

text \<open>
  The pod handle \<^verbatim>\<open>*pod\<close>. Its type and methods are declared elsewhere in the package;
  a handle is modelled by what each method answers when this file calls it, the same
  answer at every call. A Go \<^verbatim>\<open>int\<close> is 64 bits wide. A method whose value is used
  only when the error is nil answers a sum; \<^verbatim>\<open>readIntFromFile\<close>, whose value is read
  also beside an error, answers the pair.
\<close>

record pod =
  uuid :: string
  readFile :: "string \<Rightarrow> error + string"
  getState :: state
  nets :: "NetInfo list"
  getCreationTime :: "error + Time"
  getStartTime :: "error + Time"
  getGCMarkedTime :: "error + Time"
  getPID :: "error + 64 word"
  getContainerPID1 :: "error + 64 word"
  isRunning :: bool
  afterRun :: bool
  getAppImageManifest :: "string \<Rightarrow> error + ImageManifest"
  getStatusDir :: "error + string"
  readIntFromFile :: "string \<Rightarrow> 64 word \<times> error option"

text \<open>The records of the image store and the store itself (\<^verbatim>\<open>store/imagestore\<close>).
  \<^verbatim>\<open>ResolveKey\<close> answers the pair \<^verbatim>\<open>(string, error)\<close>: \<^verbatim>\<open>fillAppInfo\<close> reads the
  string whatever the error is.\<close>

record ACIInfo =
  BlobKey :: string
  ImportTime :: Time
  Size :: "64 word"
  TreeStoreSize :: "64 word"

record Store =
  ResolveKey :: "string \<Rightarrow> string \<times> error option"
  GetImageManifestJSON :: "string \<Rightarrow> error + string"

text \<open>
  What the libraries and the system answer: the JSON decoder of the two manifests, the
  validity of an app name (\<^verbatim>\<open>types.MustACName\<close> panics on an invalid one), the system
  bus and the answer of machined to the i-th \<^verbatim>\<open>GetMachine\<close> call for a machine name,
  the cgroup resolver, the appc version string, \<^verbatim>\<open>filepath.Join\<close>, and the walk over
  the pod directories: the handles \<^verbatim>\<open>walkPods\<close> passes to its callback, in order, and
  the error it returns.
\<close>

record world =
  json_Unmarshal_PodManifest :: "string \<Rightarrow> error + PodManifest"
  json_Unmarshal_ImageManifest :: "string \<Rightarrow> error + ImageManifest"
  validACName :: "string \<Rightarrow> bool"
  dbus_SystemBus :: "error option"
  GetMachine :: "string \<Rightarrow> nat \<Rightarrow> error option"
  GetCgroupPathByPid :: "64 word \<Rightarrow> string \<Rightarrow> error + string"
  AppContainerVersion :: string
  filepath_Join :: "string \<Rightarrow> string \<Rightarrow> string"
  walkPods :: "pod list \<times> error option"

text \<open>Modelled from the spec: \<^verbatim>\<open>Labels.Get\<close> belongs to the appc schema library, which is
  not under src/. It answers the value of the first label with the name and whether there
  is one ("version defaults to latest if the manifest has no explicit version label").\<close>

fun Labels_Get :: "Label list \<Rightarrow> string \<Rightarrow> string \<times> bool" where
  "Labels_Get [] name = ('''', False)"
| "Labels_Get (lbl # ls) name =
     (if Label_Name lbl = name then (Label_Value lbl, True) else Labels_Get ls name)"

subsection \<open>The pod view\<close>

definition convertAnnotationsToKeyValue :: "Annotation list \<Rightarrow> KeyValue list" where
  "convertAnnotationsToKeyValue as =
     map (\<lambda>a. \<lparr>Key = Annotation_Name a, Value = Annotation_Value a\<rparr>) as"

definition convertLabelsToKeyValue :: "Label list \<Rightarrow> KeyValue list" where
  "convertLabelsToKeyValue ls =
     map (\<lambda>l. \<lparr>Key = Label_Name l, Value = Label_Value l\<rparr>) ls"

definition getPodManifest ::
  "world \<Rightarrow> pod \<Rightarrow> (error + PodManifest \<times> string) \<times> log_entry list" where
  "getPodManifest w p =
     (case readFile p ''pod'' of
        Inl err \<Rightarrow> (Inl err, [PrintE ''failed to read pod manifest for pod %q'' [uuid p] err])
      | Inr data \<Rightarrow>
          (case json_Unmarshal_PodManifest w data of
             Inl err \<Rightarrow>
               (Inl err, [PrintE ''failed to unmarshal pod manifest for pod %q'' [uuid p] err])
           | Inr manifest \<Rightarrow> (Inr (manifest, data), [])))"

text \<open>The image format every image view carries.\<close>

definition appcFormat :: "world \<Rightarrow> ImageFormat" where
  "appcFormat w =
     \<lparr>ImageFormat_Type = IMAGE_TYPE_APPC, ImageFormat_Version = AppContainerVersion w\<rparr>"

definition getApplist :: "world \<Rightarrow> PodManifest \<Rightarrow> App list" where
  "getApplist w manifest =
     map (\<lambda>app.
       \<lparr>App_Name = RuntimeApp_Name app,
        App_Image =
          \<lparr>Image_BaseFormat = appcFormat w, Image_Id = RuntimeApp_Image_ID app,
           Image_Name = '''', Image_Version = '''', Image_ImportTimestamp = 0,
           Image_Manifest = None, Image_Size = 0, Image_Annotations = [],
           Image_Labels = []\<rparr>,
        App_State = APP_STATE_UNDEFINED,
        App_ExitCode = 0,
        App_Annotations = convertAnnotationsToKeyValue (RuntimeApp_Annotations app)\<rparr>)
       (PodManifest_Apps manifest)"

definition getNetworks :: "pod \<Rightarrow> Network list" where
  "getNetworks p =
     map (\<lambda>n. \<lparr>Network_Name = NetName n, Network_Ipv4 = IP n, Network_Ipv6 = ''''\<rparr>) (nets p)"

text \<open>The ten attempts of \<^verbatim>\<open>waitForMachinedRegistration\<close>, from attempt \<open>i\<close> on (the
  pause between two attempts is not modelled).\<close>

function machinedLoop :: "world \<Rightarrow> string \<Rightarrow> nat \<Rightarrow> error option" where
  "machinedLoop w machineName i =
     (if i < 10 then
        (if GetMachine w machineName i = None then None
         else machinedLoop w machineName (i + 1))
      else Some (Errorf ''pod not found''))"
  by pat_completeness auto
termination
  by (relation "measure (\<lambda>(w, machineName, i). 10 - i)") auto

definition waitForMachinedRegistration :: "world \<Rightarrow> string \<Rightarrow> error option" where
  "waitForMachinedRegistration w uuid_str =
     (case dbus_SystemBus w of
        Some err \<Rightarrow> Some err
      | None \<Rightarrow> machinedLoop w (''rkt-'' @ uuid_str) 0)"

text \<open>The blocks of \<^verbatim>\<open>getBasicPod\<close>, in the order of the source. Each takes the view
  built so far and returns it updated, with the diagnostics printed.\<close>

definition readManifest :: "world \<Rightarrow> pod \<Rightarrow> Pod \<Rightarrow> Pod \<times> log_entry list" where
  "readManifest w p pod =
     (case getPodManifest w p of
        (Inl err, l) \<Rightarrow>
          (pod, l @ [PrintE ''failed to get the pod manifest for pod %q'' [uuid p] err])
      | (Inr (manifest, data), l) \<Rightarrow>
          (pod\<lparr>Pod_Manifest := Some data,
               Pod_Annotations := convertAnnotationsToKeyValue (PodManifest_Annotations manifest),
               Pod_Apps := getApplist w manifest\<rparr>, l))"

definition readCreatedAt :: "pod \<Rightarrow> Pod \<Rightarrow> Pod \<times> log_entry list" where
  "readCreatedAt p pod =
     (case getCreationTime p of
        Inl err \<Rightarrow> (pod, [PrintE ''failed to get the creation time for pod %q'' [uuid p] err])
      | Inr createdAt \<Rightarrow>
          (if \<not> IsZero createdAt then pod\<lparr>Pod_CreatedAt := UnixNano createdAt\<rparr> else pod, []))"

definition readStartedAt :: "pod \<Rightarrow> Pod \<Rightarrow> Pod \<times> log_entry list" where
  "readStartedAt p pod =
     (case getStartTime p of
        Inl err \<Rightarrow> (pod, [PrintE ''failed to get the start time for pod %q'' [uuid p] err])
      | Inr startedAt \<Rightarrow>
          (if \<not> IsZero startedAt then pod\<lparr>Pod_StartedAt := UnixNano startedAt\<rparr> else pod, []))"

definition readGcMarkedAt :: "pod \<Rightarrow> Pod \<Rightarrow> Pod \<times> log_entry list" where
  "readGcMarkedAt p pod =
     (case getGCMarkedTime p of
        Inl err \<Rightarrow> (pod, [PrintE ''failed to get the gc marked time for pod %q'' [uuid p] err])
      | Inr gcMarkedAt \<Rightarrow>
          (if \<not> IsZero gcMarkedAt then pod\<lparr>Pod_GcMarkedAt := UnixNano gcMarkedAt\<rparr> else pod,
           []))"

text \<open>\<^verbatim>\<open>int32(pid)\<close> keeps the low 32 bits.\<close>

definition readPid :: "pod \<Rightarrow> Pod \<Rightarrow> Pod \<times> log_entry list" where
  "readPid p pod =
     (case getPID p of
        Inl err \<Rightarrow> (pod, [PrintE ''failed to get the PID for pod %q'' [uuid p] err])
      | Inr pid \<Rightarrow> (pod\<lparr>Pod_Pid := ucast pid\<rparr>, []))"

definition readCgroup :: "world \<Rightarrow> pod \<Rightarrow> Pod \<Rightarrow> Pod \<times> log_entry list" where
  "readCgroup w p pod =
     (if Pod_State pod = POD_STATE_RUNNING then
        (let l = (case waitForMachinedRegistration w (Pod_Id pod) of
                    Some err \<Rightarrow> [PrintE ''checking for machined registration failed'' [] err]
                  | None \<Rightarrow> [])
         in case getContainerPID1 p of
              Inl err \<Rightarrow>
                (pod, l @ [PrintE ''failed to get the container PID1 for pod %q'' [uuid p] err])
            | Inr pid \<Rightarrow>
                (case GetCgroupPathByPid w pid ''name=systemd'' of
                   Inl err \<Rightarrow>
                     (pod, l @ [PrintE ''failed to get the cgroup path for pod %q'' [uuid p] err])
                 | Inr cgroup \<Rightarrow> (pod\<lparr>Pod_Cgroup := TrimSuffix cgroup ''/init.scope''\<rparr>, l)))
      else (pod, []))"

text \<open>What follows the switch on the state, for the states that do not return there.\<close>

definition afterSwitch :: "world \<Rightarrow> pod \<Rightarrow> Pod \<Rightarrow> Pod \<times> log_entry list" where
  "afterSwitch w p pod =
     (case readCreatedAt p pod of (pod1, l1) \<Rightarrow>
      case readStartedAt p pod1 of (pod2, l2) \<Rightarrow>
      case readGcMarkedAt p pod2 of (pod3, l3) \<Rightarrow>
      case readPid p pod3 of (pod4, l4) \<Rightarrow>
      case readCgroup w p pod4 of (pod5, l5) \<Rightarrow>
        (pod5, l1 @ l2 @ l3 @ l4 @ l5))"

definition getBasicPod :: "world \<Rightarrow> pod \<Rightarrow> Pod \<times> log_entry list" where
  "getBasicPod w p =
     (case readManifest w p
             \<lparr>Pod_Id = uuid p, Pod_Pid = - 1, Pod_State = POD_STATE_UNDEFINED, Pod_Apps = [],
              Pod_Networks = [], Pod_Manifest = None, Pod_Annotations = [], Pod_Cgroup = '''',
              Pod_CreatedAt = 0, Pod_StartedAt = 0, Pod_GcMarkedAt = 0\<rparr> of
        (pod, l) \<Rightarrow>
          (case getState p of
             Embryo \<Rightarrow> (pod\<lparr>Pod_State := POD_STATE_EMBRYO\<rparr>, l)
           | Preparing \<Rightarrow>
               (case afterSwitch w p (pod\<lparr>Pod_State := POD_STATE_PREPARING\<rparr>) of
                  (pod', l') \<Rightarrow> (pod', l @ l'))
           | AbortedPrepare \<Rightarrow>
               (case afterSwitch w p (pod\<lparr>Pod_State := POD_STATE_ABORTED_PREPARE\<rparr>) of
                  (pod', l') \<Rightarrow> (pod', l @ l'))
           | Prepared \<Rightarrow>
               (case afterSwitch w p (pod\<lparr>Pod_State := POD_STATE_PREPARED\<rparr>) of
                  (pod', l') \<Rightarrow> (pod', l @ l'))
           | Running \<Rightarrow>
               (case afterSwitch w p
                       (pod\<lparr>Pod_State := POD_STATE_RUNNING, Pod_Networks := getNetworks p\<rparr>) of
                  (pod', l') \<Rightarrow> (pod', l @ l'))
           | Deleting \<Rightarrow>
               (case afterSwitch w p (pod\<lparr>Pod_State := POD_STATE_DELETING\<rparr>) of
                  (pod', l') \<Rightarrow> (pod', l @ l'))
           | Exited \<Rightarrow>
               (case afterSwitch w p (pod\<lparr>Pod_State := POD_STATE_EXITED\<rparr>) of
                  (pod', l') \<Rightarrow> (pod', l @ l'))
           | Garbage \<Rightarrow>
               (case afterSwitch w p (pod\<lparr>Pod_State := POD_STATE_GARBAGE\<rparr>) of
                  (pod', l') \<Rightarrow> (pod', l @ l'))
           | OtherState \<Rightarrow> (pod\<lparr>Pod_State := POD_STATE_UNDEFINED\<rparr>, l)))"

subsection \<open>Detail enrichment\<close>

text \<open>The first block of the loop body of \<^verbatim>\<open>fillAppInfo\<close>: the state of the app and
  whether its status file is to be read.\<close>

definition appStatus :: "pod \<Rightarrow> App \<Rightarrow> bool \<times> App" where
  "appStatus p app =
     (if isRunning p then (True, app\<lparr>App_State := APP_STATE_RUNNING\<rparr>)
      else if afterRun p then (True, app\<lparr>App_State := APP_STATE_EXITED\<rparr>)
      else (False, app\<lparr>App_State := APP_STATE_UNDEFINED\<rparr>))"

text \<open>The second block: the image id is resolved, a failure is printed, and the image of
  the app is replaced by a new one whose id is the string \<^verbatim>\<open>ResolveKey\<close> returned.\<close>

definition resolveImage :: "world \<Rightarrow> Store \<Rightarrow> App \<Rightarrow> App \<times> log_entry list" where
  "resolveImage w store app =
     (case ResolveKey store (Image_Id (App_Image app)) of
        (fullImageID, err) \<Rightarrow>
          (app\<lparr>App_Image :=
                 \<lparr>Image_BaseFormat = appcFormat w, Image_Id = fullImageID,
                  Image_Name = '''', Image_Version = '''', Image_ImportTimestamp = 0,
                  Image_Manifest = None, Image_Size = 0, Image_Annotations = [],
                  Image_Labels = []\<rparr>\<rparr>,
           case err of
             Some e \<Rightarrow>
               [PrintE ''failed to resolve the image ID %q'' [Image_Id (App_Image app)] e]
           | None \<Rightarrow> []))"

text \<open>The third block, after \<^verbatim>\<open>types.MustACName\<close> has accepted the name.\<close>

definition readImageManifest :: "pod \<Rightarrow> App \<Rightarrow> App \<times> log_entry list" where
  "readImageManifest p app =
     (case getAppImageManifest p (App_Name app) of
        Inl err \<Rightarrow>
          (app, [PrintE ''failed to get image manifests for app %q'' [App_Name app] err])
      | Inr im \<Rightarrow>
          (case Labels_Get (ImageManifest_Labels im) ''version'' of
             (version, ok) \<Rightarrow>
               (app\<lparr>App_Image := (App_Image app)
                      \<lparr>Image_Name := ImageManifest_Name im,
                       Image_Version := (if \<not> ok then ''latest'' else version)\<rparr>\<rparr>,
                [])))"

text \<open>The last block, run when \<^verbatim>\<open>readStatus\<close> is set; \<^verbatim>\<open>int32(value)\<close> keeps the low
  32 bits.\<close>

definition readExitCode :: "world \<Rightarrow> pod \<Rightarrow> App \<Rightarrow> App \<times> log_entry list" where
  "readExitCode w p app =
     (case getStatusDir p of
        Inl err \<Rightarrow> (app, [PrintE ''failed to get pod exit status directory'' [] err])
      | Inr statusDir \<Rightarrow>
          (case readIntFromFile p (filepath_Join w statusDir (App_Name app)) of
             (v, None) \<Rightarrow> (app\<lparr>App_ExitCode := ucast v\<rparr>, [])
           | (v, Some err) \<Rightarrow>
               (if \<not> IsNotExist err then
                  (app, [PrintE ''failed to read status for app %q'' [App_Name app] err])
                else (app\<lparr>App_ExitCode := ucast v\<rparr>, []))))"

text \<open>One turn of the loop of \<^verbatim>\<open>fillAppInfo\<close>.\<close>

definition fillApp :: "world \<Rightarrow> Store \<Rightarrow> pod \<Rightarrow> App \<Rightarrow> App outcome \<times> log_entry list" where
  "fillApp w store p app =
     (case appStatus p app of (readStatus, app1) \<Rightarrow>
      case resolveImage w store app1 of (app2, l1) \<Rightarrow>
        if \<not> validACName w (App_Name app2) then (Panic, l1)
        else
          (case readImageManifest p app2 of (app3, l2) \<Rightarrow>
           case (if readStatus then readExitCode w p app3 else (app3, [])) of (app4, l3) \<Rightarrow>
             (Return app4, l1 @ l2 @ l3)))"

fun fillApps :: "world \<Rightarrow> Store \<Rightarrow> pod \<Rightarrow> App list \<Rightarrow> App list outcome \<times> log_entry list" where
  "fillApps w store p [] = (Return [], [])"
| "fillApps w store p (app # apps) =
     (case fillApp w store p app of
        (Panic, l) \<Rightarrow> (Panic, l)
      | (Return app', l) \<Rightarrow>
          (case fillApps w store p apps of
             (Panic, l') \<Rightarrow> (Panic, l @ l')
           | (Return apps', l') \<Rightarrow> (Return (app' # apps'), l @ l')))"

definition fillAppInfo :: "world \<Rightarrow> Store \<Rightarrow> pod \<Rightarrow> Pod \<Rightarrow> Pod outcome \<times> log_entry list" where
  "fillAppInfo w store p v1pod =
     (case Pod_State v1pod of
        POD_STATE_UNDEFINED \<Rightarrow> (Return v1pod, [])
      | POD_STATE_EMBRYO \<Rightarrow> (Return v1pod, [])
      | _ \<Rightarrow>
          (case fillApps w store p (Pod_Apps v1pod) of
             (Panic, l) \<Rightarrow> (Panic, l)
           | (Return apps, l) \<Rightarrow> (Return (v1pod\<lparr>Pod_Apps := apps\<rparr>), l)))"

subsection \<open>Listing pods\<close>

record ListPodsRequest =
  Filters :: "PodFilter list"
  Detail :: bool

record ListPodsResponse =
  Pods :: "Pod list"

text \<open>The callback \<^verbatim>\<open>ListPods\<close> hands to \<^verbatim>\<open>walkPods\<close>: from the pods collected so far to
  the pods collected after the handle \<open>p\<close>.\<close>

definition listPodsVisit ::
  "world \<Rightarrow> Store \<Rightarrow> ListPodsRequest \<Rightarrow> pod \<Rightarrow> Pod list \<Rightarrow> Pod list outcome \<times> log_entry list"
where
  "listPodsVisit w store request p pods =
     (case getBasicPod w p of
        (pod, l) \<Rightarrow>
          if \<not> satisfiesAnyPodFilters pod (Filters request) then (Return pods, l)
          else if Detail request then
            (case fillAppInfo w store p pod of
               (Panic, l') \<Rightarrow> (Panic, l @ l')
             | (Return pod', l') \<Rightarrow> (Return (pods @ [pod']), l @ l'))
          else (Return (pods @ [pod\<lparr>Pod_Manifest := None\<rparr>]), l))"

fun listPodsWalk ::
  "world \<Rightarrow> Store \<Rightarrow> ListPodsRequest \<Rightarrow> pod list \<Rightarrow> Pod list \<Rightarrow> Pod list outcome \<times> log_entry list"
where
  "listPodsWalk w store request [] pods = (Return pods, [])"
| "listPodsWalk w store request (p # ps) pods =
     (case listPodsVisit w store request p pods of
        (Panic, l) \<Rightarrow> (Panic, l)
      | (Return pods', l) \<Rightarrow>
          (case listPodsWalk w store request ps pods' of (r, l') \<Rightarrow> (r, l @ l')))"

definition ListPods ::
  "world \<Rightarrow> Store \<Rightarrow> ListPodsRequest \<Rightarrow> (error + ListPodsResponse) outcome \<times> log_entry list"
where
  "ListPods w store request =
     (case walkPods w of
        (visited, err) \<Rightarrow>
          (case listPodsWalk w store request visited [] of
             (Panic, l) \<Rightarrow> (Panic, l)
           | (Return pods, l) \<Rightarrow>
               (case err of
                  Some e \<Rightarrow> (Return (Inl e), l @ [PrintE ''failed to list pod'' [] e])
                | None \<Rightarrow> (Return (Inr \<lparr>Pods = pods\<rparr>), l))))"

subsection \<open>The image view\<close>

definition aciInfoToV1AlphaAPIImage ::
  "world \<Rightarrow> Store \<Rightarrow> ACIInfo \<Rightarrow> (error + Image) \<times> log_entry list" where
  "aciInfoToV1AlphaAPIImage w store aciInfo =
     (case GetImageManifestJSON store (BlobKey aciInfo) of
        Inl err \<Rightarrow> (Inl err, [PrintE ''failed to read the image manifest'' [] err])
      | Inr manifest \<Rightarrow>
          (case json_Unmarshal_ImageManifest w manifest of
             Inl err \<Rightarrow> (Inl err, [PrintE ''failed to unmarshal image manifest'' [] err])
           | Inr im \<Rightarrow>
               (case Labels_Get (ImageManifest_Labels im) ''version'' of
                  (version, ok) \<Rightarrow>
                    (Inr \<lparr>Image_BaseFormat = appcFormat w,
                          Image_Id = BlobKey aciInfo,
                          Image_Name = ImageManifest_Name im,
                          Image_Version = (if \<not> ok then ''latest'' else version),
                          Image_ImportTimestamp = Unix (ImportTime aciInfo),
                          Image_Manifest = Some manifest,
                          Image_Size = Size aciInfo + TreeStoreSize aciInfo,
                          Image_Annotations =
                            convertAnnotationsToKeyValue (ImageManifest_Annotations im),
                          Image_Labels = convertLabelsToKeyValue (ImageManifest_Labels im)\<rparr>,
                     []))))"

subsection \<open>The log stream writer\<close>

text \<open>\<^verbatim>\<open>strings.Split(s, sep)\<close> for a separator of one byte: the Go library cuts \<^verbatim>\<open>s\<close>
  at the first index of the separator until there is none, and the rest is the last
  element.\<close>

fun IndexByte :: "string \<Rightarrow> char \<Rightarrow> nat option" where
  "IndexByte [] c = None"
| "IndexByte (x # xs) c = (if x = c then Some 0 else map_option Suc (IndexByte xs c))"

function Split :: "string \<Rightarrow> char \<Rightarrow> string list" where
  "Split s sep =
     (case IndexByte s sep of
        None \<Rightarrow> [s]
      | Some m \<Rightarrow> take m s # Split (drop (m + 1) s) sep)"
  by pat_completeness auto
termination
proof (relation "measure (\<lambda>(s, sep). length s)")
  show "wf (measure (\<lambda>(s, sep). length s))" by simp
next
  fix s :: string and sep :: char and m :: nat
  assume "IndexByte s sep = Some m"
  then show "((drop (m + 1) s, sep), (s, sep)) \<in> measure (\<lambda>(s, sep). length s)"
    by (cases s) auto
qed

text \<open>The server side of the log stream: how \<^verbatim>\<open>Send\<close> answers a batch of lines, and the
  batches \<^verbatim>\<open>Send\<close> has been called with so far, in order.\<close>

record GetLogsServer =
  Send_answer :: "string list \<Rightarrow> error option"
  Send_calls :: "string list list"

definition Send :: "GetLogsServer \<Rightarrow> string list \<Rightarrow> error option \<times> GetLogsServer" where
  "Send srv lines = (Send_answer srv lines, srv\<lparr>Send_calls := Send_calls srv @ [lines]\<rparr>)"

record LogsStreamWriter =
  stream :: GetLogsServer

text \<open>The line feed, the separator \<^verbatim>\<open>"\n"\<close>.\<close>

definition LF :: char where
  "LF = CHR 0x0A"

definition Write ::
  "LogsStreamWriter \<Rightarrow> string \<Rightarrow> (int \<times> error option) \<times> LogsStreamWriter" where
  "Write sw b =
     (let lines = filter (\<lambda>v. length v > 0) (Split b LF)
      in case Send (stream sw) lines of
           (Some err, srv) \<Rightarrow> ((0, Some err), sw\<lparr>stream := srv\<rparr>)
         | (None, srv) \<Rightarrow> ((int (length b), None), sw\<lparr>stream := srv\<rparr>))"

subsection \<open>Events\<close>

definition ListenEvents :: "'request \<Rightarrow> 'server \<Rightarrow> error option" where
  "ListenEvents request server = Some (Errorf ''not implemented yet'')"

subsection \<open>Example inputs\<close>

text \<open>A running pod in the cgroup \<^verbatim>\<open>/a/b\<close> whose annotations repeat a key, and a filter
  with sub-cgroup candidates only.\<close>

definition examplePod :: Pod where
  "examplePod =
     \<lparr>Pod_Id = ''uuid-2'', Pod_Pid = 42, Pod_State = POD_STATE_RUNNING, Pod_Apps = [],
      Pod_Networks = [], Pod_Manifest = None,
      Pod_Annotations = [\<lparr>Key = ''owner'', Value = ''ops''\<rparr>, \<lparr>Key = ''owner'', Value = ''dev''\<rparr>],
      Pod_Cgroup = ''/a/b'', Pod_CreatedAt = 0, Pod_StartedAt = 0, Pod_GcMarkedAt = 0\<rparr>"

definition exampleFilter :: PodFilter where
  "exampleFilter =
     \<lparr>PodFilter_Ids = [], PodFilter_States = [], PodFilter_AppNames = [],
      PodFilter_ImageIds = [], PodFilter_NetworkNames = [], PodFilter_Annotations = [],
      PodFilter_Cgroups = [], PodFilter_PodSubCgroups = [''/a/b/init.scope'', ''/x'']\<rparr>"

text \<open>A pod manifest with two apps; the file \<^verbatim>\<open>pod\<close> of every example handle holds it.\<close>

definition exampleManifest :: PodManifest where
  "exampleManifest =
     \<lparr>PodManifest_Apps =
        [\<lparr>RuntimeApp_Name = ''redis'', RuntimeApp_Image_ID = ''sha512-aaaa'',
          RuntimeApp_Annotations = []\<rparr>,
         \<lparr>RuntimeApp_Name = ''etcd'', RuntimeApp_Image_ID = ''sha512-bbbb'',
          RuntimeApp_Annotations = []\<rparr>],
      PodManifest_Annotations = [\<lparr>Annotation_Name = ''owner'', Annotation_Value = ''ops''\<rparr>]\<rparr>"

text \<open>An image manifest without a version label, and one with two.\<close>

definition exampleImageManifest :: ImageManifest where
  "exampleImageManifest =
     \<lparr>ImageManifest_Name = ''example.com/redis'',
      ImageManifest_Labels = [\<lparr>Label_Name = ''os'', Label_Value = ''linux''\<rparr>],
      ImageManifest_Annotations = []\<rparr>"

definition versionedImageManifest :: ImageManifest where
  "versionedImageManifest =
     \<lparr>ImageManifest_Name = ''example.com/etcd'',
      ImageManifest_Labels =
        [\<lparr>Label_Name = ''os'', Label_Value = ''linux''\<rparr>,
         \<lparr>Label_Name = ''version'', Label_Value = ''2.3.1''\<rparr>],
      ImageManifest_Annotations = []\<rparr>"

text \<open>A handle in the embryo state whose file \<^verbatim>\<open>pod\<close> can be read: the state is what
  the handle recorded when it was opened, the file is read when \<^verbatim>\<open>getBasicPod\<close> runs.\<close>

definition embryoHandle :: pod where
  "embryoHandle =
     \<lparr>uuid = ''uuid-1'',
      readFile = (\<lambda>name. if name = ''pod'' then Inr ''{pod}'' else Inl (ErrNotExist name)),
      getState = Embryo,
      nets = [],
      getCreationTime = Inr \<lparr>IsZero = False, UnixNano = 5000000000, Unix = 5\<rparr>,
      getStartTime = Inr \<lparr>IsZero = True, UnixNano = 0, Unix = 0\<rparr>,
      getGCMarkedTime = Inr \<lparr>IsZero = True, UnixNano = 0, Unix = 0\<rparr>,
      getPID = Inl (ErrNotExist ''pid''),
      getContainerPID1 = Inl (ErrNotExist ''ppid''),
      isRunning = False,
      afterRun = False,
      getAppImageManifest =
        (\<lambda>name. if name = ''redis'' then Inr exampleImageManifest
                 else if name = ''etcd'' then Inr versionedImageManifest
                 else Inl (ErrNotExist name)),
      getStatusDir = Inr ''status'',
      readIntFromFile = (\<lambda>path. (- 1, Some (ErrNotExist path)))\<rparr>"

text \<open>The same pod once it has exited, and an embryo whose file \<^verbatim>\<open>pod\<close> is missing.\<close>

definition exitedHandle :: pod where
  "exitedHandle = embryoHandle\<lparr>uuid := ''uuid-3'', getState := Exited, afterRun := True\<rparr>"

definition emptyHandle :: pod where
  "emptyHandle = embryoHandle\<lparr>uuid := ''uuid-4'', readFile := (\<lambda>name. Inl (ErrNotExist name))\<rparr>"

text \<open>The libraries and the system of the examples; the walk visits the three example
  handles and returns no error.\<close>

definition exampleWorld :: world where
  "exampleWorld =
     \<lparr>json_Unmarshal_PodManifest =
        (\<lambda>data. if data = ''{pod}'' then Inr exampleManifest
                 else Inl (Errorf ''unexpected end of JSON input'')),
      json_Unmarshal_ImageManifest =
        (\<lambda>data. if data = ''{redis}'' then Inr exampleImageManifest
                 else if data = ''{etcd}'' then Inr versionedImageManifest
                 else Inl (Errorf ''unexpected end of JSON input'')),
      validACName = (\<lambda>name. name \<noteq> ''''),
      dbus_SystemBus = None,
      GetMachine = (\<lambda>machineName i. None),
      GetCgroupPathByPid = (\<lambda>pid controller. Inr ''/machine.slice/rkt/init.scope''),
      AppContainerVersion = ''0.8.1'',
      filepath_Join = (\<lambda>dir name. dir @ ''/'' @ name),
      walkPods = ([embryoHandle, exitedHandle, emptyHandle], None)\<rparr>"

text \<open>An image store that knows the image of \<^verbatim>\<open>etcd\<close> only; for any other id
  \<^verbatim>\<open>ResolveKey\<close> returns the empty string and an error, as the store of rkt does.\<close>

definition exampleStore :: Store where
  "exampleStore =
     \<lparr>ResolveKey =
        (\<lambda>key. if key = ''sha512-bbbb'' then (''sha512-bbbbcccc'', None)
                else ('''', Some (Errorf ''no image IDs found''))),
      GetImageManifestJSON =
        (\<lambda>key. if key = ''sha512-bbbbcccc'' then Inr ''{etcd}''
                else if key = ''sha512-aaaadddd'' then Inr ''{redis}''
                else Inl (Errorf ''no image IDs found''))\<rparr>"

definition exampleACIInfo :: ACIInfo where
  "exampleACIInfo =
     \<lparr>BlobKey = ''sha512-aaaadddd'',
      ImportTime = \<lparr>IsZero = False, UnixNano = 7000000000, Unix = 7\<rparr>,
      Size = 100, TreeStoreSize = 50\<rparr>"

text \<open>A log stream whose subscriber accepts every batch, and one whose transport fails.\<close>

definition exampleWriter :: LogsStreamWriter where
  "exampleWriter = \<lparr>stream = \<lparr>Send_answer = (\<lambda>lines. None), Send_calls = []\<rparr>\<rparr>"

definition brokenWriter :: LogsStreamWriter where
  "brokenWriter =
     \<lparr>stream = \<lparr>Send_answer = (\<lambda>lines. Some (Errorf ''transport is closing'')),
                Send_calls = []\<rparr>\<rparr>"

section \<open>Properties\<close>

subsection \<open>Filters are combined with OR\<close>

lemma anyPodFilter_iff: "anyPodFilter p F \<longleftrightarrow> (\<exists>f\<in>set F. satisfiesPodFilter p f)"
  by (induction F) auto

text \<open>
  C1. For every pod and every list of filters: with no filter the pod is kept, and with
  at least one filter the pod is kept exactly when some filter of the list is satisfied.
\<close>

theorem satisfiesAnyPodFilters_or:
  "satisfiesAnyPodFilters p [] = True
   \<and> (F \<noteq> [] \<longrightarrow> (satisfiesAnyPodFilters p F \<longleftrightarrow> (\<exists>f\<in>set F. satisfiesPodFilter p f)))"
  by (simp add: satisfiesAnyPodFilters_def anyPodFilter_iff)

theorem satisfiesAnyPodFilters_or_witness:
  "[exampleFilter] \<noteq> [] \<and> satisfiesAnyPodFilters examplePod [exampleFilter]
   \<and> (\<exists>f\<in>set [exampleFilter]. satisfiesPodFilter examplePod f)"
  using satisfiesAnyPodFilters_or [of examplePod "[exampleFilter]"]
  by (simp add: satisfiesPodFilter_def examplePod_def exampleFilter_def matched_def HasPrefix_def)

subsection \<open>Key-value containment\<close>

lemma findInKeyValues_first:
  "findInKeyValues A k = (v, True) \<longleftrightarrow>
     (\<exists>pre kv post. A = pre @ kv # post \<and> (\<forall>x\<in>set pre. Key x \<noteq> k) \<and> Key kv = k \<and> Value kv = v)"
proof (induction A)
  case Nil
  then show ?case by simp
next
  case (Cons a A)
  show ?case
  proof (cases "Key a = k")
    case True
    have "(\<exists>pre kv post. a # A = pre @ kv # post \<and> (\<forall>x\<in>set pre. Key x \<noteq> k)
             \<and> Key kv = k \<and> Value kv = v)
          \<longleftrightarrow> Value a = v"
    proof
      assume "\<exists>pre kv post. a # A = pre @ kv # post \<and> (\<forall>x\<in>set pre. Key x \<noteq> k)
                \<and> Key kv = k \<and> Value kv = v"
      then obtain pre kv post where
        h: "a # A = pre @ kv # post" "\<forall>x\<in>set pre. Key x \<noteq> k" "Value kv = v"
        by blast
      from h True have "pre = []" by (cases pre) auto
      with h show "Value a = v" by simp
    next
      assume "Value a = v"
      with True have "a # A = [] @ a # A \<and> (\<forall>x\<in>set []. Key x \<noteq> k) \<and> Key a = k \<and> Value a = v"
        by simp
      then show "\<exists>pre kv post. a # A = pre @ kv # post \<and> (\<forall>x\<in>set pre. Key x \<noteq> k)
                   \<and> Key kv = k \<and> Value kv = v"
        by blast
    qed
    with True show ?thesis by simp
  next
    case False
    have "(\<exists>pre kv post. a # A = pre @ kv # post \<and> (\<forall>x\<in>set pre. Key x \<noteq> k)
             \<and> Key kv = k \<and> Value kv = v)
          \<longleftrightarrow> (\<exists>pre kv post. A = pre @ kv # post \<and> (\<forall>x\<in>set pre. Key x \<noteq> k)
                 \<and> Key kv = k \<and> Value kv = v)"
    proof
      assume "\<exists>pre kv post. a # A = pre @ kv # post \<and> (\<forall>x\<in>set pre. Key x \<noteq> k)
                \<and> Key kv = k \<and> Value kv = v"
      then obtain pre kv post where
        h: "a # A = pre @ kv # post" "\<forall>x\<in>set pre. Key x \<noteq> k" "Key kv = k" "Value kv = v"
        by blast
      from h False obtain pre' where p: "pre = a # pre'" by (cases pre) auto
      with h have "A = pre' @ kv # post \<and> (\<forall>x\<in>set pre'. Key x \<noteq> k) \<and> Key kv = k \<and> Value kv = v"
        by simp
      then show "\<exists>pre kv post. A = pre @ kv # post \<and> (\<forall>x\<in>set pre. Key x \<noteq> k)
                   \<and> Key kv = k \<and> Value kv = v"
        by blast
    next
      assume "\<exists>pre kv post. A = pre @ kv # post \<and> (\<forall>x\<in>set pre. Key x \<noteq> k)
                \<and> Key kv = k \<and> Value kv = v"
      then obtain pre kv post where
        h: "A = pre @ kv # post" "\<forall>x\<in>set pre. Key x \<noteq> k" "Key kv = k" "Value kv = v"
        by blast
      with False have "a # A = (a # pre) @ kv # post \<and> (\<forall>x\<in>set (a # pre). Key x \<noteq> k)
                         \<and> Key kv = k \<and> Value kv = v"
        by simp
      then show "\<exists>pre kv post. a # A = pre @ kv # post \<and> (\<forall>x\<in>set pre. Key x \<noteq> k)
                   \<and> Key kv = k \<and> Value kv = v"
        by blast
    qed
    with False Cons.IH show ?thesis by simp
  qed
qed

lemma containsAllKeyValues_all:
  "containsAllKeyValues A R \<longleftrightarrow> (\<forall>r\<in>set R. findInKeyValues A (Key r) = (Value r, True))"
  by (induction R) (auto split: prod.splits)

text \<open>
  C2. Nothing required is always contained; and the required pairs are contained exactly
  when, for each of them, the first entry of the candidate list with its key (no entry
  before it has the key) carries its value.
\<close>

theorem containsAllKeyValues_first_match:
  "containsAllKeyValues A [] = True
   \<and> (containsAllKeyValues A R \<longleftrightarrow>
        (\<forall>r\<in>set R. \<exists>pre kv post.
            A = pre @ kv # post \<and> (\<forall>x\<in>set pre. Key x \<noteq> Key r)
            \<and> Key kv = Key r \<and> Value kv = Value r))"
  by (simp add: containsAllKeyValues_all findInKeyValues_first)

theorem containsAllKeyValues_first_match_witness:
  "containsAllKeyValues (Pod_Annotations examplePod) [\<lparr>Key = ''owner'', Value = ''ops''\<rparr>]
   \<and> (\<exists>pre kv post.
         Pod_Annotations examplePod = pre @ kv # post \<and> (\<forall>x\<in>set pre. Key x \<noteq> ''owner'')
         \<and> Key kv = ''owner'' \<and> Value kv = ''ops'')
   \<and> \<not> containsAllKeyValues (Pod_Annotations examplePod) [\<lparr>Key = ''owner'', Value = ''dev''\<rparr>]"
proof -
  have a: "containsAllKeyValues (Pod_Annotations examplePod) [\<lparr>Key = ''owner'', Value = ''ops''\<rparr>]"
    by (simp add: examplePod_def)
  have b: "\<not> containsAllKeyValues (Pod_Annotations examplePod) [\<lparr>Key = ''owner'', Value = ''dev''\<rparr>]"
    by (simp add: examplePod_def)
  from a containsAllKeyValues_first_match
             [of "Pod_Annotations examplePod" "[\<lparr>Key = ''owner'', Value = ''ops''\<rparr>]"]
  have "\<exists>pre kv post.
         Pod_Annotations examplePod = pre @ kv # post \<and> (\<forall>x\<in>set pre. Key x \<noteq> ''owner'')
         \<and> Key kv = ''owner'' \<and> Value kv = ''ops''"
    by simp
  with a b show ?thesis by blast
qed

subsection \<open>The sub-cgroup criterion\<close>

lemma HasPrefix_prefix: "HasPrefix s pre \<longleftrightarrow> prefix pre s"
  unfolding HasPrefix_def
proof
  assume "length pre \<le> length s \<and> take (length pre) s = pre"
  then have "s = pre @ drop (length pre) s" by (metis append_take_drop_id)
  then show "prefix pre s" by (metis prefixI)
next
  assume "prefix pre s"
  then obtain t where "s = pre @ t" by (auto simp: prefix_def)
  then show "length pre \<le> length s \<and> take (length pre) s = pre" by simp
qed

lemma matchedLoop_iff: "matchedLoop c cs \<longleftrightarrow> (\<exists>x\<in>set cs. prefix c x)"
  by (induction cs) (auto simp: HasPrefix_prefix)

text \<open>
  C3. For a filter with sub-cgroup candidates: the criterion (\<open>matched\<close>) holds exactly
  when the cgroup of the pod is not empty and is a prefix of a candidate; the filter is
  satisfied exactly when its other criteria are and this one is; and a pod with the empty
  cgroup never satisfies the filter.
\<close>

theorem satisfiesPodFilter_sub_cgroup:
  assumes "PodFilter_PodSubCgroups f \<noteq> []"
  shows "(matched p f \<longleftrightarrow>
            Pod_Cgroup p \<noteq> '''' \<and> (\<exists>c\<in>set (PodFilter_PodSubCgroups f). prefix (Pod_Cgroup p) c))
         \<and> (satisfiesPodFilter p f \<longleftrightarrow>
              satisfiesPodFilter p (f\<lparr>PodFilter_PodSubCgroups := []\<rparr>) \<and> matched p f)
         \<and> (Pod_Cgroup p = '''' \<longrightarrow> \<not> satisfiesPodFilter p f)"
proof -
  have m: "matched p f \<longleftrightarrow>
            Pod_Cgroup p \<noteq> '''' \<and> (\<exists>c\<in>set (PodFilter_PodSubCgroups f). prefix (Pod_Cgroup p) c)"
    by (simp add: matched_def matchedLoop_iff)
  have s: "satisfiesPodFilter p f \<longleftrightarrow>
              satisfiesPodFilter p (f\<lparr>PodFilter_PodSubCgroups := []\<rparr>) \<and> matched p f"
    using assms by (simp add: satisfiesPodFilter_def)
  from m s show ?thesis by blast
qed

theorem satisfiesPodFilter_sub_cgroup_witness:
  "PodFilter_PodSubCgroups exampleFilter \<noteq> []
   \<and> matched examplePod exampleFilter
   \<and> satisfiesPodFilter examplePod exampleFilter
   \<and> Pod_Cgroup (examplePod\<lparr>Pod_Cgroup := ''''\<rparr>) = ''''
   \<and> \<not> satisfiesPodFilter (examplePod\<lparr>Pod_Cgroup := ''''\<rparr>) exampleFilter"
proof -
  have h: "PodFilter_PodSubCgroups exampleFilter \<noteq> []"
    by (simp add: exampleFilter_def)
  have c: "Pod_Cgroup examplePod \<noteq> ''''
           \<and> (\<exists>c\<in>set (PodFilter_PodSubCgroups exampleFilter). prefix (Pod_Cgroup examplePod) c)"
    by (simp add: examplePod_def exampleFilter_def)
  have r: "satisfiesPodFilter examplePod (exampleFilter\<lparr>PodFilter_PodSubCgroups := []\<rparr>)"
    by (simp add: satisfiesPodFilter_def exampleFilter_def)
  have e: "Pod_Cgroup (examplePod\<lparr>Pod_Cgroup := ''''\<rparr>) = ''''"
    by simp
  from h c r e
    satisfiesPodFilter_sub_cgroup [OF h, of examplePod]
    satisfiesPodFilter_sub_cgroup [OF h, of "examplePod\<lparr>Pod_Cgroup := ''''\<rparr>"]
  show ?thesis by blast
qed

subsection \<open>The view of a pod in the embryo state\<close>

lemma embryo_manifest:
  "getPodManifest exampleWorld embryoHandle = (Inr (exampleManifest, ''{pod}''), [])"
  by (simp add: getPodManifest_def exampleWorld_def embryoHandle_def)

lemma empty_manifest:
  "fst (getPodManifest exampleWorld emptyHandle) = Inl (ErrNotExist ''pod'')"
  by (simp add: getPodManifest_def exampleWorld_def embryoHandle_def emptyHandle_def)

text \<open>
  C4, as stated, fails: \<^verbatim>\<open>getBasicPod\<close> reads the manifest before it looks at the state,
  so the view of an embryo whose manifest can be read has apps and annotations.
\<close>

theorem getBasicPod_embryo_counterexample:
  "getState embryoHandle = Embryo
   \<and> Pod_Apps (fst (getBasicPod exampleWorld embryoHandle)) \<noteq> []
   \<and> Pod_Annotations (fst (getBasicPod exampleWorld embryoHandle)) \<noteq> []"
proof -
  have s: "getState embryoHandle = Embryo" by (simp add: embryoHandle_def)
  have a: "PodManifest_Apps exampleManifest \<noteq> []" "PodManifest_Annotations exampleManifest \<noteq> []"
    by (simp_all add: exampleManifest_def)
  from s a show ?thesis
    by (simp add: getBasicPod_def readManifest_def embryo_manifest getApplist_def
          convertAnnotationsToKeyValue_def)
qed

text \<open>
  C4, amended. For every handle in the embryo state the view has the id of the pod, the
  pid -1 and the embryo state; no timestamp, no network and no cgroup is set; and the apps,
  the annotations and the manifest bytes are empty when the manifest cannot be read or
  decoded, and are those of the manifest when it can.
\<close>

theorem getBasicPod_embryo:
  assumes "getState p = Embryo"
  shows "Pod_Id (fst (getBasicPod w p)) = uuid p
         \<and> Pod_Pid (fst (getBasicPod w p)) = - 1
         \<and> Pod_State (fst (getBasicPod w p)) = POD_STATE_EMBRYO
         \<and> Pod_CreatedAt (fst (getBasicPod w p)) = 0
         \<and> Pod_StartedAt (fst (getBasicPod w p)) = 0
         \<and> Pod_GcMarkedAt (fst (getBasicPod w p)) = 0
         \<and> Pod_Networks (fst (getBasicPod w p)) = []
         \<and> Pod_Cgroup (fst (getBasicPod w p)) = ''''
         \<and> (case fst (getPodManifest w p) of
               Inl err \<Rightarrow>
                 Pod_Apps (fst (getBasicPod w p)) = []
                 \<and> Pod_Annotations (fst (getBasicPod w p)) = []
                 \<and> Pod_Manifest (fst (getBasicPod w p)) = None
             | Inr (manifest, data) \<Rightarrow>
                 Pod_Apps (fst (getBasicPod w p)) = getApplist w manifest
                 \<and> Pod_Annotations (fst (getBasicPod w p)) =
                     convertAnnotationsToKeyValue (PodManifest_Annotations manifest)
                 \<and> Pod_Manifest (fst (getBasicPod w p)) = Some data)"
  using assms
  by (simp add: getBasicPod_def readManifest_def split: prod.splits sum.splits)

theorem getBasicPod_embryo_witness:
  "getState emptyHandle = Embryo
   \<and> Pod_State (fst (getBasicPod exampleWorld emptyHandle)) = POD_STATE_EMBRYO
   \<and> Pod_Pid (fst (getBasicPod exampleWorld emptyHandle)) = - 1
   \<and> Pod_Apps (fst (getBasicPod exampleWorld emptyHandle)) = []
   \<and> Pod_Annotations (fst (getBasicPod exampleWorld emptyHandle)) = []
   \<and> getState embryoHandle = Embryo
   \<and> Pod_CreatedAt (fst (getBasicPod exampleWorld embryoHandle)) = 0
   \<and> Pod_Manifest (fst (getBasicPod exampleWorld embryoHandle)) = Some ''{pod}''"
proof -
  have h1: "getState emptyHandle = Embryo" by (simp add: emptyHandle_def embryoHandle_def)
  have h2: "getState embryoHandle = Embryo" by (simp add: embryoHandle_def)
  from h1 h2 getBasicPod_embryo [OF h1, of exampleWorld] getBasicPod_embryo [OF h2, of exampleWorld]
  show ?thesis by (simp add: empty_manifest embryo_manifest)
qed

subsection \<open>The version and the size of an image view\<close>

lemma Labels_Get_find:
  "Labels_Get ls name =
     (case find (\<lambda>l. Label_Name l = name) ls of
        None \<Rightarrow> ('''', False)
      | Some l \<Rightarrow> (Label_Value l, True))"
  by (induction ls) auto

lemma sint_add_no_overflow:
  fixes a b :: "64 word"
  assumes "- (2 ^ 63) \<le> sint a + sint b" "sint a + sint b < 2 ^ 63"
  shows "sint (a + b) = sint a + sint b"
  using assms by (simp add: sint_word_ariths signed_take_bit_int_eq_self)

lemma fillApp_fst:
  "fst (fillApp w store p app) =
     (if \<not> validACName w (App_Name app) then Panic
      else Return
        (if fst (appStatus p app)
         then fst (readExitCode w p
                (fst (readImageManifest p (fst (resolveImage w store (snd (appStatus p app)))))))
         else fst (readImageManifest p (fst (resolveImage w store (snd (appStatus p app)))))))"
proof -
  have n: "App_Name (snd (appStatus p app)) = App_Name app"
    by (simp add: appStatus_def)
  have r: "App_Name (fst (resolveImage w store a)) = App_Name a" for a
    by (simp add: resolveImage_def split: prod.splits)
  obtain rs a1 where s1: "appStatus p app = (rs, a1)" by (cases "appStatus p app")
  obtain a2 l1 where s2: "resolveImage w store a1 = (a2, l1)" by (cases "resolveImage w store a1")
  obtain a3 l2 where s3: "readImageManifest p a2 = (a3, l2)" by (cases "readImageManifest p a2")
  obtain a4 l3 where s4: "readExitCode w p a3 = (a4, l3)" by (cases "readExitCode w p a3")
  from n s1 have n1: "App_Name a1 = App_Name app" by simp
  from r [of a1] s2 n1 have n2: "App_Name a2 = App_Name app" by simp
  show ?thesis by (simp add: fillApp_def s1 s2 s3 s4 n2)
qed

lemma fillApp_version:
  assumes "fst (fillApp w store p app) = Return app'"
      and "getAppImageManifest p (App_Name app) = Inr im"
  shows "Image_Version (App_Image app') =
           (case find (\<lambda>l. Label_Name l = ''version'') (ImageManifest_Labels im) of
              None \<Rightarrow> ''latest'' | Some l \<Rightarrow> Label_Value l)"
proof -
  have n: "App_Name (snd (appStatus p app)) = App_Name app"
    by (simp add: appStatus_def)
  have r: "App_Name (fst (resolveImage w store a)) = App_Name a" for a
    by (simp add: resolveImage_def split: prod.splits)
  have v: "Image_Version (App_Image (fst (readImageManifest p a))) =
           (case find (\<lambda>l. Label_Name l = ''version'') (ImageManifest_Labels im) of
              None \<Rightarrow> ''latest'' | Some l \<Rightarrow> Label_Value l)"
    if "App_Name a = App_Name app" for a
    using that assms(2)
    by (simp add: readImageManifest_def Labels_Get_find split: option.splits)
  have e: "App_Image (fst (readExitCode w p a)) = App_Image a" for a
    by (simp add: readExitCode_def split: sum.splits prod.splits option.splits)
  have k: "App_Name (fst (resolveImage w store (snd (appStatus p app)))) = App_Name app"
    by (simp add: r n)
  from assms(1) have "app' =
        (if fst (appStatus p app)
         then fst (readExitCode w p
                (fst (readImageManifest p (fst (resolveImage w store (snd (appStatus p app)))))))
         else fst (readImageManifest p (fst (resolveImage w store (snd (appStatus p app))))))"
    by (simp add: fillApp_fst split: if_splits)
  then show ?thesis by (simp add: e v [OF k])
qed


lemma fillApps_fst:
  "fst (fillApps w store p (app # apps)) =
     (case fst (fillApp w store p app) of
        Panic \<Rightarrow> Panic
      | Return app' \<Rightarrow>
          (case fst (fillApps w store p apps) of
             Panic \<Rightarrow> Panic
           | Return apps' \<Rightarrow> Return (app' # apps')))"
  by (simp split: prod.splits outcome.splits)

lemma fillApps_all2:
  "fst (fillApps w store p apps) = Return apps' \<Longrightarrow>
   list_all2 (\<lambda>app app'. fst (fillApp w store p app) = Return app') apps apps'"
proof (induction apps arbitrary: apps')
  case Nil
  then show ?case by simp
next
  case (Cons app apps)
  from Cons.prems obtain a' as' where
    h: "fst (fillApp w store p app) = Return a'" "fst (fillApps w store p apps) = Return as'"
       "apps' = a' # as'"
    by (auto simp: fillApps_fst simp del: fillApps.simps split: outcome.splits)
  with Cons.IH [of as'] show ?case by simp
qed

lemma fillAppInfo_fst:
  "fst (fillAppInfo w store p v1pod) =
     (if Pod_State v1pod = POD_STATE_UNDEFINED \<or> Pod_State v1pod = POD_STATE_EMBRYO
      then Return v1pod
      else (case fst (fillApps w store p (Pod_Apps v1pod)) of
              Panic \<Rightarrow> Panic
            | Return apps \<Rightarrow> Return (v1pod\<lparr>Pod_Apps := apps\<rparr>)))"
  by (cases "Pod_State v1pod")
     (simp_all add: fillAppInfo_def split: prod.splits outcome.splits)

text \<open>
  C9. For every record the conversion accepts: the version of the view is \<^verbatim>\<open>latest\<close> when
  the manifest has no label named version, and otherwise the value of the first label
  with that name; the size of the view is the sum of the blob size and the tree store size
  (the \<^verbatim>\<open>int64\<close> addition of Go, which is the sum of the two numbers whenever that sum
  is an \<^verbatim>\<open>int64\<close>). The version that detail enrichment gives the image of an app has
  the same default, whenever the image manifest of the app can be read.
\<close>

theorem image_version_default_and_size:
  "(fst (aciInfoToV1AlphaAPIImage w store aciInfo) = Inr img \<longrightarrow>
      (\<exists>manifest im.
          GetImageManifestJSON store (BlobKey aciInfo) = Inr manifest
          \<and> json_Unmarshal_ImageManifest w manifest = Inr im
          \<and> Image_Version img =
              (case find (\<lambda>l. Label_Name l = ''version'') (ImageManifest_Labels im) of
                 None \<Rightarrow> ''latest'' | Some l \<Rightarrow> Label_Value l)
          \<and> ((\<forall>l\<in>set (ImageManifest_Labels im). Label_Name l \<noteq> ''version'') \<longrightarrow>
                Image_Version img = ''latest''))
      \<and> Image_Size img = Size aciInfo + TreeStoreSize aciInfo
      \<and> (- (2 ^ 63) \<le> sint (Size aciInfo) + sint (TreeStoreSize aciInfo)
           \<and> sint (Size aciInfo) + sint (TreeStoreSize aciInfo) < 2 ^ 63 \<longrightarrow>
           sint (Image_Size img) = sint (Size aciInfo) + sint (TreeStoreSize aciInfo)))
   \<and> (fst (fillAppInfo w store p v1pod) = Return v1pod'
        \<and> Pod_State v1pod \<noteq> POD_STATE_UNDEFINED \<and> Pod_State v1pod \<noteq> POD_STATE_EMBRYO \<longrightarrow>
        list_all2
          (\<lambda>app app'. \<forall>im. getAppImageManifest p (App_Name app) = Inr im \<longrightarrow>
             Image_Version (App_Image app') =
               (case find (\<lambda>l. Label_Name l = ''version'') (ImageManifest_Labels im) of
                  None \<Rightarrow> ''latest'' | Some l \<Rightarrow> Label_Value l))
          (Pod_Apps v1pod) (Pod_Apps v1pod'))"
proof (intro conjI impI)
  assume a: "fst (aciInfoToV1AlphaAPIImage w store aciInfo) = Inr img"
  then obtain manifest where m: "GetImageManifestJSON store (BlobKey aciInfo) = Inr manifest"
    by (cases "GetImageManifestJSON store (BlobKey aciInfo)")
       (simp_all add: aciInfoToV1AlphaAPIImage_def)
  with a obtain im where i: "json_Unmarshal_ImageManifest w manifest = Inr im"
    by (cases "json_Unmarshal_ImageManifest w manifest")
       (simp_all add: aciInfoToV1AlphaAPIImage_def)
  from a m i have v: "Image_Version img =
              (case find (\<lambda>l. Label_Name l = ''version'') (ImageManifest_Labels im) of
                 None \<Rightarrow> ''latest'' | Some l \<Rightarrow> Label_Value l)"
    by (auto simp: aciInfoToV1AlphaAPIImage_def Labels_Get_find split: option.splits)
  have "(\<forall>l\<in>set (ImageManifest_Labels im). Label_Name l \<noteq> ''version'') \<longrightarrow>
                Image_Version img = ''latest''"
  proof
    assume "\<forall>l\<in>set (ImageManifest_Labels im). Label_Name l \<noteq> ''version''"
    then have "find (\<lambda>l. Label_Name l = ''version'') (ImageManifest_Labels im) = None"
      by (simp add: find_None_iff)
    with v show "Image_Version img = ''latest''" by simp
  qed
  with m i v show "\<exists>manifest im.
          GetImageManifestJSON store (BlobKey aciInfo) = Inr manifest
          \<and> json_Unmarshal_ImageManifest w manifest = Inr im
          \<and> Image_Version img =
              (case find (\<lambda>l. Label_Name l = ''version'') (ImageManifest_Labels im) of
                 None \<Rightarrow> ''latest'' | Some l \<Rightarrow> Label_Value l)
          \<and> ((\<forall>l\<in>set (ImageManifest_Labels im). Label_Name l \<noteq> ''version'') \<longrightarrow>
                Image_Version img = ''latest'')"
    by blast
  from a m i show s: "Image_Size img = Size aciInfo + TreeStoreSize aciInfo"
    by (auto simp: aciInfoToV1AlphaAPIImage_def split: prod.splits)
  assume "- (2 ^ 63) \<le> sint (Size aciInfo) + sint (TreeStoreSize aciInfo)
           \<and> sint (Size aciInfo) + sint (TreeStoreSize aciInfo) < 2 ^ 63"
  then show "sint (Image_Size img) = sint (Size aciInfo) + sint (TreeStoreSize aciInfo)"
    by (simp add: s sint_add_no_overflow)
next
  assume "fst (fillAppInfo w store p v1pod) = Return v1pod'
        \<and> Pod_State v1pod \<noteq> POD_STATE_UNDEFINED \<and> Pod_State v1pod \<noteq> POD_STATE_EMBRYO"
  then obtain apps where
    f: "fst (fillApps w store p (Pod_Apps v1pod)) = Return apps" "Pod_Apps v1pod' = apps"
    by (auto simp: fillAppInfo_fst split: outcome.splits)
  from fillApps_all2 [OF f(1)]
  have "list_all2 (\<lambda>app app'. fst (fillApp w store p app) = Return app') (Pod_Apps v1pod) apps" .
  then have "list_all2
          (\<lambda>app app'. \<forall>im. getAppImageManifest p (App_Name app) = Inr im \<longrightarrow>
             Image_Version (App_Image app') =
               (case find (\<lambda>l. Label_Name l = ''version'') (ImageManifest_Labels im) of
                  None \<Rightarrow> ''latest'' | Some l \<Rightarrow> Label_Value l))
          (Pod_Apps v1pod) apps"
    by (rule list_all2_mono) (simp add: fillApp_version)
  with f(2) show "list_all2
          (\<lambda>app app'. \<forall>im. getAppImageManifest p (App_Name app) = Inr im \<longrightarrow>
             Image_Version (App_Image app') =
               (case find (\<lambda>l. Label_Name l = ''version'') (ImageManifest_Labels im) of
                  None \<Rightarrow> ''latest'' | Some l \<Rightarrow> Label_Value l))
          (Pod_Apps v1pod) (Pod_Apps v1pod')"
    by simp
qed

text \<open>The view of the exited example pod, before and after detail enrichment.\<close>

lemma exited_manifest:
  "getPodManifest exampleWorld exitedHandle = (Inr (exampleManifest, ''{pod}''), [])"
  by (simp add: getPodManifest_def exampleWorld_def embryoHandle_def exitedHandle_def)

lemma exited_basic:
  "fst (getBasicPod exampleWorld exitedHandle) =
     \<lparr>Pod_Id = ''uuid-3'', Pod_Pid = - 1, Pod_State = POD_STATE_EXITED,
      Pod_Apps = getApplist exampleWorld exampleManifest,
      Pod_Networks = [], Pod_Manifest = Some ''{pod}'',
      Pod_Annotations = [\<lparr>Key = ''owner'', Value = ''ops''\<rparr>], Pod_Cgroup = '''',
      Pod_CreatedAt = 5000000000, Pod_StartedAt = 0, Pod_GcMarkedAt = 0\<rparr>"
proof -
  have s: "getState exitedHandle = Exited" "uuid exitedHandle = ''uuid-3''"
    "getCreationTime exitedHandle = Inr \<lparr>IsZero = False, UnixNano = 5000000000, Unix = 5\<rparr>"
    "getStartTime exitedHandle = Inr \<lparr>IsZero = True, UnixNano = 0, Unix = 0\<rparr>"
    "getGCMarkedTime exitedHandle = Inr \<lparr>IsZero = True, UnixNano = 0, Unix = 0\<rparr>"
    "getPID exitedHandle = Inl (ErrNotExist ''pid'')"
    by (simp_all add: exitedHandle_def embryoHandle_def)
  show ?thesis
    by (simp add: getBasicPod_def readManifest_def exited_manifest s afterSwitch_def
          readCreatedAt_def readStartedAt_def readGcMarkedAt_def readPid_def readCgroup_def
          convertAnnotationsToKeyValue_def exampleManifest_def)
qed

lemma exited_filled:
  "map (\<lambda>a. (App_Name a, Image_Id (App_Image a), Image_Version (App_Image a), App_State a))
     (case fst (fillAppInfo exampleWorld exampleStore exitedHandle
                  (fst (getBasicPod exampleWorld exitedHandle))) of
        Panic \<Rightarrow> [] | Return pod' \<Rightarrow> Pod_Apps pod') =
   [(''redis'', '''', ''latest'', APP_STATE_EXITED),
    (''etcd'', ''sha512-bbbbcccc'', ''2.3.1'', APP_STATE_EXITED)]"
proof -
  have s: "isRunning exitedHandle = False" "afterRun exitedHandle = True"
    "getStatusDir exitedHandle = Inr ''status''"
    "getAppImageManifest exitedHandle ''redis'' = Inr exampleImageManifest"
    "getAppImageManifest exitedHandle ''etcd'' = Inr versionedImageManifest"
    "\<And>path. readIntFromFile exitedHandle path = (- 1, Some (ErrNotExist path))"
    by (simp_all add: exitedHandle_def embryoHandle_def)
  have w: "validACName exampleWorld ''redis''" "validACName exampleWorld ''etcd''"
    by (simp_all add: exampleWorld_def)
  have r: "ResolveKey exampleStore ''sha512-aaaa'' = ('''', Some (Errorf ''no image IDs found''))"
    "ResolveKey exampleStore ''sha512-bbbb'' = (''sha512-bbbbcccc'', None)"
    by (simp_all add: exampleStore_def)
  show ?thesis
    by (simp add: exited_basic fillAppInfo_def getApplist_def exampleManifest_def fillApp_def
          appStatus_def resolveImage_def readImageManifest_def readExitCode_def s w r
          exampleImageManifest_def versionedImageManifest_def)
qed

theorem image_version_default_and_size_witness:
  "(\<exists>img. fst (aciInfoToV1AlphaAPIImage exampleWorld exampleStore exampleACIInfo) = Inr img
           \<and> Image_Version img = ''latest'' \<and> Image_Size img = 150 \<and> sint (Image_Size img) = 150)
   \<and> (\<exists>v1pod'. fst (fillAppInfo exampleWorld exampleStore exitedHandle
                        (fst (getBasicPod exampleWorld exitedHandle))) = Return v1pod'
           \<and> map (\<lambda>a. Image_Version (App_Image a)) (Pod_Apps v1pod') = [''latest'', ''2.3.1''])"
proof -
  have g: "GetImageManifestJSON exampleStore (BlobKey exampleACIInfo) = Inr ''{redis}''"
    by (simp add: exampleStore_def exampleACIInfo_def)
  have u: "json_Unmarshal_ImageManifest exampleWorld ''{redis}'' = Inr exampleImageManifest"
    by (simp add: exampleWorld_def)
  obtain img where i: "fst (aciInfoToV1AlphaAPIImage exampleWorld exampleStore exampleACIInfo) = Inr img"
    by (simp add: aciInfoToV1AlphaAPIImage_def g u case_prod_beta)
  have n: "\<forall>l\<in>set (ImageManifest_Labels exampleImageManifest). Label_Name l \<noteq> ''version''"
    by (simp add: exampleImageManifest_def)
  have z: "Size exampleACIInfo + TreeStoreSize exampleACIInfo = 150"
    "- (2 ^ 63) \<le> sint (Size exampleACIInfo) + sint (TreeStoreSize exampleACIInfo)
     \<and> sint (Size exampleACIInfo) + sint (TreeStoreSize exampleACIInfo) < 2 ^ 63"
    "sint (Size exampleACIInfo) + sint (TreeStoreSize exampleACIInfo) = 150"
    by (simp_all add: exampleACIInfo_def)
  let ?basic = "fst (getBasicPod exampleWorld exitedHandle)"
  obtain v1pod' where f: "fst (fillAppInfo exampleWorld exampleStore exitedHandle ?basic) = Return v1pod'"
    using exited_filled
    by (cases "fst (fillAppInfo exampleWorld exampleStore exitedHandle ?basic)") simp_all
  have st: "Pod_State ?basic \<noteq> POD_STATE_UNDEFINED \<and> Pod_State ?basic \<noteq> POD_STATE_EMBRYO"
    by (simp add: exited_basic)
  have apps: "map App_Name (Pod_Apps ?basic) = [''redis'', ''etcd'']"
    by (simp add: exited_basic getApplist_def exampleManifest_def)
  have m: "getAppImageManifest exitedHandle ''redis'' = Inr exampleImageManifest"
    "getAppImageManifest exitedHandle ''etcd'' = Inr versionedImageManifest"
    by (simp_all add: exitedHandle_def embryoHandle_def)
  have fd: "find (\<lambda>l. Label_Name l = ''version'') (ImageManifest_Labels exampleImageManifest) = None"
    "find (\<lambda>l. Label_Name l = ''version'') (ImageManifest_Labels versionedImageManifest) =
       Some \<lparr>Label_Name = ''version'', Label_Value = ''2.3.1''\<rparr>"
    by (simp_all add: exampleImageManifest_def versionedImageManifest_def)
  note t = image_version_default_and_size
             [of exampleWorld exampleStore exampleACIInfo img exitedHandle ?basic v1pod']
  from t i g u n have 1: "Image_Version img = ''latest''" by auto
  from t i z have 2: "Image_Size img = 150 \<and> sint (Image_Size img) = 150" by simp
  from t f st have "list_all2
          (\<lambda>app app'. \<forall>im. getAppImageManifest exitedHandle (App_Name app) = Inr im \<longrightarrow>
             Image_Version (App_Image app') =
               (case find (\<lambda>l. Label_Name l = ''version'') (ImageManifest_Labels im) of
                  None \<Rightarrow> ''latest'' | Some l \<Rightarrow> Label_Value l))
          (Pod_Apps ?basic) (Pod_Apps v1pod')"
    by blast
  with apps m fd have 3: "map (\<lambda>a. Image_Version (App_Image a)) (Pod_Apps v1pod') = [''latest'', ''2.3.1'']"
    by (auto simp: list_all2_Cons1 map_eq_Cons_conv)
  from i 1 2 have A: "\<exists>img. fst (aciInfoToV1AlphaAPIImage exampleWorld exampleStore exampleACIInfo) = Inr img
           \<and> Image_Version img = ''latest'' \<and> Image_Size img = 150 \<and> sint (Image_Size img) = 150"
    by (intro exI [of _ img]) simp
  from f 3 have B: "\<exists>v1pod'. fst (fillAppInfo exampleWorld exampleStore exitedHandle
                        (fst (getBasicPod exampleWorld exitedHandle))) = Return v1pod'
           \<and> map (\<lambda>a. Image_Version (App_Image a)) (Pod_Apps v1pod') = [''latest'', ''2.3.1'']"
    by (intro exI [of _ v1pod']) simp
  from A B show ?thesis by (rule conjI)
qed

subsection \<open>The log stream writer pushes one batch for each chunk\<close>

declare Split.simps [simp del]

lemma IndexByte_None: "c \<notin> set s \<Longrightarrow> IndexByte s c = None"
  by (induction s) auto

lemma IndexByte_first: "c \<notin> set s \<Longrightarrow> IndexByte (s @ c # t) c = Some (length s)"
  by (induction s) auto

lemma Split_no_sep: "c \<notin> set r \<Longrightarrow> Split r c = [r]"
  by (subst Split.simps) (simp add: IndexByte_None)

lemma Split_segment: "c \<notin> set s \<Longrightarrow> Split (s @ c # t) c = s # Split t c"
  by (subst Split.simps) (simp add: IndexByte_first)

lemma Split_joined:
  "\<forall>s\<in>set segs. c \<notin> set s \<Longrightarrow> c \<notin> set r \<Longrightarrow>
   Split (concat (map (\<lambda>s. s @ [c]) segs) @ r) c = segs @ [r]"
  by (induction segs) (simp_all add: Split_no_sep Split_segment)

lemma IndexByte_Some: "IndexByte s c = Some m \<Longrightarrow> c \<notin> set (take m s) \<and> s = take m s @ c # drop (Suc m) s"
proof (induction s arbitrary: m)
  case Nil
  then show ?case by simp
next
  case (Cons x xs)
  then show ?case by (cases "x = c") auto
qed

lemma IndexByte_None_iff: "IndexByte s c = None \<Longrightarrow> c \<notin> set s"
  by (induction s) (auto split: if_splits)

lemma Split_decompose:
  "\<exists>segs r. (\<forall>s\<in>set segs. c \<notin> set s) \<and> c \<notin> set r
            \<and> (b :: string) = concat (map (\<lambda>s. s @ [c]) segs) @ r"
proof (induction b c rule: Split.induct)
  case (1 s sep)
  show ?case
  proof (cases "IndexByte s sep")
    case None
    then have "(\<forall>x\<in>set []. sep \<notin> set x) \<and> sep \<notin> set s \<and> s = concat (map (\<lambda>s. s @ [sep]) []) @ s"
      by (simp add: IndexByte_None_iff)
    then show ?thesis by blast
  next
    case (Some m)
    from 1 [OF Some] obtain segs r where
      h: "\<forall>x\<in>set segs. sep \<notin> set x" "sep \<notin> set r"
         "drop (m + 1) s = concat (map (\<lambda>s. s @ [sep]) segs) @ r"
      by blast
    from IndexByte_Some [OF Some] have t: "sep \<notin> set (take m s)" "s = take m s @ sep # drop (Suc m) s"
      by simp_all
    from h t have "(\<forall>x\<in>set (take m s # segs). sep \<notin> set x) \<and> sep \<notin> set r
        \<and> s = concat (map (\<lambda>s. s @ [sep]) (take m s # segs)) @ r"
      by simp
    then show ?thesis by blast
  qed
qed

lemma Write_calls:
  "Send_calls (stream (snd (Write sw b))) =
     Send_calls (stream sw) @ [filter (\<lambda>v. v \<noteq> []) (Split b LF)]"
  by (simp add: Write_def Send_def Let_def split: prod.splits option.splits)

lemma only_LF: "set b \<subseteq> {c} \<Longrightarrow> \<forall>v\<in>set (Split b c). v = []"
proof (induction b c rule: Split.induct)
  case (1 s sep)
  show ?case
  proof (cases "IndexByte s sep")
    case None
    then have "sep \<notin> set s" by (rule IndexByte_None_iff)
    with 1(2) have "s = []" by (cases s) auto
    then show ?thesis by (subst Split.simps) simp
  next
    case (Some m)
    from 1(2) have "set (drop (m + 1) s) \<subseteq> {sep}" by (meson set_drop_subset subset_trans)
    from 1(1) [OF Some this] have a: "\<forall>v\<in>set (Split (drop (m + 1) s) sep). v = []" .
    from IndexByte_Some [OF Some] have "sep \<notin> set (take m s)" by simp
    moreover from 1(2) have "set (take m s) \<subseteq> {sep}" by (meson set_take_subset subset_trans)
    ultimately have "take m s = []" by (cases "take m s") auto
    with a Some show ?thesis by (subst Split.simps) simp
  qed
qed

text \<open>
  C7. Every chunk is, in exactly one way, a sequence of segments without a line feed, each
  followed by a line feed, and a rest without a line feed. Writing the chunk calls
  \<^verbatim>\<open>Send\<close> exactly once, with the segments and the rest that are not empty, in order;
  a chunk of line feeds only (or an empty chunk) still makes the call, with the empty
  batch; and the chunk \<^verbatim>\<open>a\n\nb\n\<close> sends the batch of \<^verbatim>\<open>a\<close> and \<^verbatim>\<open>b\<close>.
\<close>

theorem Write_one_push:
  "(\<exists>segs r. (\<forall>s\<in>set segs. LF \<notin> set s) \<and> LF \<notin> set r
              \<and> b = concat (map (\<lambda>s. s @ [LF]) segs) @ r)
   \<and> (\<forall>segs r. (\<forall>s\<in>set segs. LF \<notin> set s) \<and> LF \<notin> set r
                 \<and> b = concat (map (\<lambda>s. s @ [LF]) segs) @ r \<longrightarrow>
          Send_calls (stream (snd (Write sw b))) =
            Send_calls (stream sw) @ [filter (\<lambda>s. s \<noteq> []) (segs @ [r])])
   \<and> (set b \<subseteq> {LF} \<longrightarrow>
          Send_calls (stream (snd (Write sw b))) = Send_calls (stream sw) @ [[]])
   \<and> Send_calls (stream (snd (Write sw [CHR ''a'', LF, LF, CHR ''b'', LF]))) =
          Send_calls (stream sw) @ [[''a'', ''b'']]"
proof -
  have a: "\<exists>segs r. (\<forall>s\<in>set segs. LF \<notin> set s) \<and> LF \<notin> set r
              \<and> b = concat (map (\<lambda>s. s @ [LF]) segs) @ r"
    by (rule Split_decompose)
  have b: "\<forall>segs r. (\<forall>s\<in>set segs. LF \<notin> set s) \<and> LF \<notin> set r
                 \<and> b = concat (map (\<lambda>s. s @ [LF]) segs) @ r \<longrightarrow>
          Send_calls (stream (snd (Write sw b))) =
            Send_calls (stream sw) @ [filter (\<lambda>s. s \<noteq> []) (segs @ [r])]"
    by (simp add: Write_calls Split_joined del: filter_append)
  have c: "set b \<subseteq> {LF} \<longrightarrow>
          Send_calls (stream (snd (Write sw b))) = Send_calls (stream sw) @ [[]]"
  proof
    assume "set b \<subseteq> {LF}"
    then have "\<forall>v\<in>set (Split b LF). v = []" by (rule only_LF)
    then have "filter (\<lambda>v. v \<noteq> []) (Split b LF) = []" by (simp add: filter_empty_conv)
    then show "Send_calls (stream (snd (Write sw b))) = Send_calls (stream sw) @ [[]]"
      by (simp add: Write_calls)
  qed
  have "LF \<noteq> CHR ''a''" "LF \<noteq> CHR ''b''" by (simp_all add: LF_def)
  then have "Split [CHR ''a'', LF, LF, CHR ''b'', LF] LF = [''a'', [], ''b'', []]"
    using Split_joined [of "[''a'', [], ''b'']" LF "[]"] by simp
  then have d: "Send_calls (stream (snd (Write sw [CHR ''a'', LF, LF, CHR ''b'', LF]))) =
          Send_calls (stream sw) @ [[''a'', ''b'']]"
    by (simp add: Write_calls)
  from a b c d show ?thesis by blast
qed

theorem Write_one_push_witness:
  "Send_calls (stream (snd (Write exampleWriter [CHR ''a'', LF, LF, CHR ''b'', LF]))) = [[''a'', ''b'']]
   \<and> Send_calls (stream (snd (Write exampleWriter [CHR ''a'', LF, CHR ''b'']))) = [[''a'', ''b'']]
   \<and> Send_calls (stream (snd (Write exampleWriter [LF, LF]))) = [[]]"
proof -
  have n: "LF \<noteq> CHR ''a''" "LF \<noteq> CHR ''b''" by (simp_all add: LF_def)
  have c: "Send_calls (stream exampleWriter) = []" by (simp add: exampleWriter_def)
  from n have h: "(\<forall>s\<in>set [''a'']. LF \<notin> set s) \<and> LF \<notin> set ''b''
            \<and> [CHR ''a'', LF, CHR ''b''] = concat (map (\<lambda>s. s @ [LF]) [''a'']) @ ''b''"
    by simp
  have e: "set [LF, LF] \<subseteq> {LF}" by simp
  from Write_one_push [of "[CHR ''a'', LF, LF, CHR ''b'', LF]" exampleWriter] c
  have 1: "Send_calls (stream (snd (Write exampleWriter [CHR ''a'', LF, LF, CHR ''b'', LF]))) = [[''a'', ''b'']]"
    by simp
  from Write_one_push [of "[CHR ''a'', LF, CHR ''b'']" exampleWriter] h
  have "Send_calls (stream (snd (Write exampleWriter [CHR ''a'', LF, CHR ''b'']))) =
          Send_calls (stream exampleWriter) @ [filter (\<lambda>s. s \<noteq> []) ([''a''] @ [''b''])]"
    by blast
  with c have 2: "Send_calls (stream (snd (Write exampleWriter [CHR ''a'', LF, CHR ''b'']))) = [[''a'', ''b'']]"
    by simp
  from Write_one_push [of "[LF, LF]" exampleWriter] e c
  have 3: "Send_calls (stream (snd (Write exampleWriter [LF, LF]))) = [[]]"
    by simp
  from 1 2 3 show ?thesis by blast
qed

text \<open>
  C10. When the push succeeds, \<^verbatim>\<open>Write\<close> returns the length of the whole chunk and no
  error; when it fails, \<^verbatim>\<open>Write\<close> returns 0 and the error of the push.
\<close>

theorem Write_result:
  "(Send_answer (stream sw) (filter (\<lambda>v. length v > 0) (Split b LF)) = None \<longrightarrow>
      fst (Write sw b) = (int (length b), None))
   \<and> (\<forall>err. Send_answer (stream sw) (filter (\<lambda>v. length v > 0) (Split b LF)) = Some err \<longrightarrow>
      fst (Write sw b) = (0, Some err))"
  by (simp add: Write_def Send_def Let_def)

theorem Write_result_witness:
  "fst (Write exampleWriter [CHR ''a'', LF, LF, CHR ''b'', LF]) = (5, None)
   \<and> fst (Write brokenWriter [CHR ''a'', LF, LF, CHR ''b'', LF]) =
       (0, Some (Errorf ''transport is closing''))"
proof -
  have a: "Send_answer (stream exampleWriter)
             (filter (\<lambda>v. length v > 0) (Split [CHR ''a'', LF, LF, CHR ''b'', LF] LF)) = None"
    by (simp add: exampleWriter_def)
  have b: "Send_answer (stream brokenWriter)
             (filter (\<lambda>v. length v > 0) (Split [CHR ''a'', LF, LF, CHR ''b'', LF] LF)) =
           Some (Errorf ''transport is closing'')"
    by (simp add: brokenWriter_def)
  from a Write_result [of exampleWriter "[CHR ''a'', LF, LF, CHR ''b'', LF]"]
  have 1: "fst (Write exampleWriter [CHR ''a'', LF, LF, CHR ''b'', LF]) = (5, None)"
    by simp
  from b Write_result [of brokenWriter "[CHR ''a'', LF, LF, CHR ''b'', LF]"]
  have 2: "fst (Write brokenWriter [CHR ''a'', LF, LF, CHR ''b'', LF]) =
       (0, Some (Errorf ''transport is closing''))"
    by simp
  from 1 2 show ?thesis by blast
qed

subsection \<open>Events are not implemented\<close>

text \<open>
  C8. Whatever the request and the stream, \<^verbatim>\<open>ListenEvents\<close> returns the error
  \<^verbatim>\<open>not implemented yet\<close>, never the nil error.
\<close>

theorem ListenEvents_not_implemented:
  "ListenEvents request server = Some (Errorf ''not implemented yet'')
   \<and> ListenEvents request server \<noteq> None"
  by (simp add: ListenEvents_def)

subsection \<open>Detail enrichment and an image id the store cannot resolve\<close>

text \<open>Whatever \<^verbatim>\<open>ResolveKey\<close> answers, the id of the image of an enriched app is the
  string it returned, not the id the app had.\<close>

lemma fillApp_image_id:
  assumes "fst (fillApp w store p app) = Return app'"
  shows "Image_Id (App_Image app') = fst (ResolveKey store (Image_Id (App_Image app)))"
proof -
  have a: "App_Image (snd (appStatus p app)) = App_Image app"
    by (simp add: appStatus_def)
  have r: "Image_Id (App_Image (fst (resolveImage w store a))) =
             fst (ResolveKey store (Image_Id (App_Image a)))" for a
    by (simp add: resolveImage_def split: prod.splits)
  have m: "Image_Id (App_Image (fst (readImageManifest p a))) = Image_Id (App_Image a)" for a
    by (simp add: readImageManifest_def split: sum.splits prod.splits)
  have e: "App_Image (fst (readExitCode w p a)) = App_Image a" for a
    by (simp add: readExitCode_def split: sum.splits prod.splits option.splits)
  from assms have "app' =
        (if fst (appStatus p app)
         then fst (readExitCode w p
                (fst (readImageManifest p (fst (resolveImage w store (snd (appStatus p app)))))))
         else fst (readImageManifest p (fst (resolveImage w store (snd (appStatus p app))))))"
    by (simp add: fillApp_fst split: if_splits)
  then show ?thesis by (simp add: e m r a)
qed

text \<open>
  C6 asks that an app whose image id cannot be resolved keeps that id, the failure being
  printed and the enrichment going on. The pod below has the apps \<^verbatim>\<open>redis\<close> and
  \<^verbatim>\<open>etcd\<close>; the store cannot resolve the image id of the first. The failure is printed
  and the second app is enriched, but the image id of the first app is now the empty
  string that \<^verbatim>\<open>ResolveKey\<close> returned beside its error.
\<close>

theorem fillAppInfo_loses_unresolved_image_id:
  "map (\<lambda>a. Image_Id (App_Image a)) (Pod_Apps (fst (getBasicPod exampleWorld exitedHandle))) =
     [''sha512-aaaa'', ''sha512-bbbb'']
   \<and> snd (ResolveKey exampleStore ''sha512-aaaa'') = Some (Errorf ''no image IDs found'')
   \<and> (case fillAppInfo exampleWorld exampleStore exitedHandle
              (fst (getBasicPod exampleWorld exitedHandle)) of
         (Panic, l) \<Rightarrow> False
       | (Return v1pod', l) \<Rightarrow>
           map (\<lambda>a. Image_Id (App_Image a)) (Pod_Apps v1pod') = ['''', ''sha512-bbbbcccc'']
           \<and> l = [PrintE ''failed to resolve the image ID %q'' [''sha512-aaaa'']
                     (Errorf ''no image IDs found'')])"
proof -
  have s: "isRunning exitedHandle = False" "afterRun exitedHandle = True"
    "getStatusDir exitedHandle = Inr ''status''"
    "getAppImageManifest exitedHandle ''redis'' = Inr exampleImageManifest"
    "getAppImageManifest exitedHandle ''etcd'' = Inr versionedImageManifest"
    "\<And>path. readIntFromFile exitedHandle path = (- 1, Some (ErrNotExist path))"
    by (simp_all add: exitedHandle_def embryoHandle_def)
  have w: "validACName exampleWorld ''redis''" "validACName exampleWorld ''etcd''"
    by (simp_all add: exampleWorld_def)
  have r: "ResolveKey exampleStore ''sha512-aaaa'' = ('''', Some (Errorf ''no image IDs found''))"
    "ResolveKey exampleStore ''sha512-bbbb'' = (''sha512-bbbbcccc'', None)"
    by (simp_all add: exampleStore_def)
  have 1: "map (\<lambda>a. Image_Id (App_Image a)) (Pod_Apps (fst (getBasicPod exampleWorld exitedHandle))) =
     [''sha512-aaaa'', ''sha512-bbbb'']"
    by (simp add: exited_basic getApplist_def exampleManifest_def)
  have 3: "(case fillAppInfo exampleWorld exampleStore exitedHandle
              (fst (getBasicPod exampleWorld exitedHandle)) of
         (Panic, l) \<Rightarrow> False
       | (Return v1pod', l) \<Rightarrow>
           map (\<lambda>a. Image_Id (App_Image a)) (Pod_Apps v1pod') = ['''', ''sha512-bbbbcccc'']
           \<and> l = [PrintE ''failed to resolve the image ID %q'' [''sha512-aaaa'']
                     (Errorf ''no image IDs found'')])"
    by (simp add: exited_basic fillAppInfo_def getApplist_def exampleManifest_def fillApp_def
          appStatus_def resolveImage_def readImageManifest_def readExitCode_def s w r
          exampleImageManifest_def versionedImageManifest_def)
  from 1 3 r show ?thesis by simp
qed

subsection \<open>Listing pods and the detail flag\<close>

lemma afterSwitch_manifest: "Pod_Manifest (fst (afterSwitch w p pod)) = Pod_Manifest pod"
proof -
  have 1: "Pod_Manifest (fst (readCreatedAt p x)) = Pod_Manifest x" for x
    by (simp add: readCreatedAt_def split: sum.splits)
  have 2: "Pod_Manifest (fst (readStartedAt p x)) = Pod_Manifest x" for x
    by (simp add: readStartedAt_def split: sum.splits)
  have 3: "Pod_Manifest (fst (readGcMarkedAt p x)) = Pod_Manifest x" for x
    by (simp add: readGcMarkedAt_def split: sum.splits)
  have 4: "Pod_Manifest (fst (readPid p x)) = Pod_Manifest x" for x
    by (simp add: readPid_def split: sum.splits)
  have 5: "Pod_Manifest (fst (readCgroup w p x)) = Pod_Manifest x" for x
    by (simp add: readCgroup_def Let_def split: sum.splits)
  have "fst (afterSwitch w p pod) =
          fst (readCgroup w p (fst (readPid p (fst (readGcMarkedAt p
            (fst (readStartedAt p (fst (readCreatedAt p pod)))))))))"
    by (simp add: afterSwitch_def case_prod_beta)
  then show ?thesis by (simp add: 1 2 3 4 5)
qed

lemma readManifest_manifest:
  "Pod_Manifest (fst (readManifest w p pod)) =
     (case fst (getPodManifest w p) of
        Inl err \<Rightarrow> Pod_Manifest pod
      | Inr (manifest, data) \<Rightarrow> Some data)"
  by (simp add: readManifest_def split: prod.splits sum.splits)

lemma getBasicPod_manifest:
  "Pod_Manifest (fst (getBasicPod w p)) =
     (case fst (getPodManifest w p) of
        Inl err \<Rightarrow> None
      | Inr (manifest, data) \<Rightarrow> Some data)"
proof -
  let ?pod0 = "\<lparr>Pod_Id = uuid p, Pod_Pid = - 1, Pod_State = POD_STATE_UNDEFINED, Pod_Apps = [],
              Pod_Networks = [], Pod_Manifest = None, Pod_Annotations = [], Pod_Cgroup = '''',
              Pod_CreatedAt = 0, Pod_StartedAt = 0, Pod_GcMarkedAt = 0\<rparr>"
  obtain pod l where r: "readManifest w p ?pod0 = (pod, l)"
    by (cases "readManifest w p ?pod0")
  have "Pod_Manifest (fst (getBasicPod w p)) = Pod_Manifest pod"
    by (cases "getState p")
       (simp_all add: getBasicPod_def r case_prod_beta afterSwitch_manifest)
  moreover from r readManifest_manifest [of w p ?pod0]
  have "Pod_Manifest pod =
     (case fst (getPodManifest w p) of Inl err \<Rightarrow> None | Inr (manifest, data) \<Rightarrow> Some data)"
    by (simp split: sum.splits)
  ultimately show ?thesis by simp
qed

lemma fillAppInfo_manifest:
  "fst (fillAppInfo w store p v1pod) = Return v1pod' \<Longrightarrow> Pod_Manifest v1pod' = Pod_Manifest v1pod"
  by (auto simp: fillAppInfo_fst split: if_splits outcome.splits)

lemma fillApps_returns:
  "\<forall>app\<in>set apps. validACName w (App_Name app) \<Longrightarrow>
   \<exists>apps'. fst (fillApps w store p apps) = Return apps'"
proof (induction apps)
  case Nil
  then show ?case by simp
next
  case (Cons app apps)
  then obtain as' where "fst (fillApps w store p apps) = Return as'" by auto
  moreover from Cons.prems obtain a' where "fst (fillApp w store p app) = Return a'"
    by (simp add: fillApp_fst)
  ultimately show ?case by (simp add: fillApps_fst del: fillApps.simps)
qed

lemma fillAppInfo_returns:
  "\<forall>app\<in>set (Pod_Apps v1pod). validACName w (App_Name app) \<Longrightarrow>
   \<exists>v1pod'. fst (fillAppInfo w store p v1pod) = Return v1pod'"
  using fillApps_returns [of "Pod_Apps v1pod" w store p]
  by (auto simp: fillAppInfo_fst)

lemma listPodsVisit_fst:
  "fst (listPodsVisit w store request p pods) =
     (if \<not> satisfiesAnyPodFilters (fst (getBasicPod w p)) (Filters request) then Return pods
      else if Detail request then
        (case fst (fillAppInfo w store p (fst (getBasicPod w p))) of
           Panic \<Rightarrow> Panic
         | Return pod' \<Rightarrow> Return (pods @ [pod']))
      else Return (pods @ [(fst (getBasicPod w p))\<lparr>Pod_Manifest := None\<rparr>]))"
  by (simp add: listPodsVisit_def split: prod.splits outcome.splits)

lemma listPodsWalk_fst:
  "fst (listPodsWalk w store request (p # ps) pods) =
     (case fst (listPodsVisit w store request p pods) of
        Panic \<Rightarrow> Panic
      | Return pods' \<Rightarrow> fst (listPodsWalk w store request ps pods'))"
  by (simp split: prod.splits outcome.splits)

lemma listPodsWalk_no_detail:
  "\<not> Detail request \<Longrightarrow>
   fst (listPodsWalk w store request ps pods) =
     Return (pods @ map (\<lambda>p. (fst (getBasicPod w p))\<lparr>Pod_Manifest := None\<rparr>)
                      (filter (\<lambda>p. satisfiesAnyPodFilters (fst (getBasicPod w p)) (Filters request))
                         ps))"
proof (induction ps arbitrary: pods)
  case Nil
  then show ?case by simp
next
  case (Cons p ps)
  then show ?case
    by (simp add: listPodsWalk_fst listPodsVisit_fst del: listPodsWalk.simps)
qed

lemma listPodsWalk_detail:
  "Detail request \<Longrightarrow> fst (listPodsWalk w store request ps pods) = Return out \<Longrightarrow>
   \<exists>new. out = pods @ new
     \<and> list_all2 (\<lambda>p pod. fst (fillAppInfo w store p (fst (getBasicPod w p))) = Return pod)
         (filter (\<lambda>p. satisfiesAnyPodFilters (fst (getBasicPod w p)) (Filters request)) ps) new"
proof (induction ps arbitrary: pods)
  case Nil
  then show ?case by simp
next
  case (Cons p ps)
  from Cons.prems(2) obtain pods' where
    v: "fst (listPodsVisit w store request p pods) = Return pods'"
    and r: "fst (listPodsWalk w store request ps pods') = Return out"
    by (auto simp: listPodsWalk_fst simp del: listPodsWalk.simps split: outcome.splits)
  from Cons.IH [OF Cons.prems(1) r] obtain new where
    n: "out = pods' @ new"
       "list_all2 (\<lambda>p pod. fst (fillAppInfo w store p (fst (getBasicPod w p))) = Return pod)
         (filter (\<lambda>p. satisfiesAnyPodFilters (fst (getBasicPod w p)) (Filters request)) ps) new"
    by blast
  show ?case
  proof (cases "satisfiesAnyPodFilters (fst (getBasicPod w p)) (Filters request)")
    case False
    with v have "pods' = pods" by (simp add: listPodsVisit_fst)
    with n False show ?thesis by simp
  next
    case True
    with v Cons.prems(1) obtain pod' where
      f: "fst (fillAppInfo w store p (fst (getBasicPod w p))) = Return pod'" "pods' = pods @ [pod']"
      by (auto simp: listPodsVisit_fst split: outcome.splits)
    with n True have "out = pods @ (pod' # new)
       \<and> list_all2 (\<lambda>p pod. fst (fillAppInfo w store p (fst (getBasicPod w p))) = Return pod)
         (filter (\<lambda>p. satisfiesAnyPodFilters (fst (getBasicPod w p)) (Filters request)) (p # ps))
         (pod' # new)"
      by simp
    then show ?thesis by blast
  qed
qed

lemma listPodsWalk_returns:
  "\<forall>p\<in>set ps. \<forall>app\<in>set (Pod_Apps (fst (getBasicPod w p))). validACName w (App_Name app) \<Longrightarrow>
   \<exists>out. fst (listPodsWalk w store request ps pods) = Return out"
proof (induction ps arbitrary: pods)
  case Nil
  then show ?case by simp
next
  case (Cons p ps)
  from Cons.prems have "\<forall>app\<in>set (Pod_Apps (fst (getBasicPod w p))). validACName w (App_Name app)"
    by simp
  from fillAppInfo_returns [OF this] obtain v where
    v: "fst (fillAppInfo w store p (fst (getBasicPod w p))) = Return v" by blast
  have "\<exists>pods'. fst (listPodsVisit w store request p pods) = Return pods'"
    by (simp add: listPodsVisit_fst v)
  then obtain pods' where "fst (listPodsVisit w store request p pods) = Return pods'" ..
  moreover from Cons.IH [of pods'] Cons.prems
  obtain out where "fst (listPodsWalk w store request ps pods') = Return out" by auto
  ultimately show ?case by (simp add: listPodsWalk_fst del: listPodsWalk.simps)
qed

lemma ListPods_fst:
  "fst (ListPods w store request) =
     (case fst (listPodsWalk w store request (fst (walkPods w)) []) of
        Panic \<Rightarrow> Panic
      | Return pods \<Rightarrow>
          (case snd (walkPods w) of
             Some e \<Rightarrow> Return (Inl e)
           | None \<Rightarrow> Return (Inr \<lparr>Pods = pods\<rparr>)))"
  by (simp add: ListPods_def split: prod.splits outcome.splits option.splits)

lemma afterSwitch_apps: "Pod_Apps (fst (afterSwitch w p pod)) = Pod_Apps pod"
proof -
  have 1: "Pod_Apps (fst (readCreatedAt p x)) = Pod_Apps x" for x
    by (simp add: readCreatedAt_def split: sum.splits)
  have 2: "Pod_Apps (fst (readStartedAt p x)) = Pod_Apps x" for x
    by (simp add: readStartedAt_def split: sum.splits)
  have 3: "Pod_Apps (fst (readGcMarkedAt p x)) = Pod_Apps x" for x
    by (simp add: readGcMarkedAt_def split: sum.splits)
  have 4: "Pod_Apps (fst (readPid p x)) = Pod_Apps x" for x
    by (simp add: readPid_def split: sum.splits)
  have 5: "Pod_Apps (fst (readCgroup w p x)) = Pod_Apps x" for x
    by (simp add: readCgroup_def Let_def split: sum.splits)
  have "fst (afterSwitch w p pod) =
          fst (readCgroup w p (fst (readPid p (fst (readGcMarkedAt p
            (fst (readStartedAt p (fst (readCreatedAt p pod)))))))))"
    by (simp add: afterSwitch_def case_prod_beta)
  then show ?thesis by (simp add: 1 2 3 4 5)
qed

lemma getBasicPod_apps:
  "Pod_Apps (fst (getBasicPod w p)) =
     (case fst (getPodManifest w p) of
        Inl err \<Rightarrow> []
      | Inr (manifest, data) \<Rightarrow> getApplist w manifest)"
proof -
  let ?pod0 = "\<lparr>Pod_Id = uuid p, Pod_Pid = - 1, Pod_State = POD_STATE_UNDEFINED, Pod_Apps = [],
              Pod_Networks = [], Pod_Manifest = None, Pod_Annotations = [], Pod_Cgroup = '''',
              Pod_CreatedAt = 0, Pod_StartedAt = 0, Pod_GcMarkedAt = 0\<rparr>"
  obtain pod l where r: "readManifest w p ?pod0 = (pod, l)"
    by (cases "readManifest w p ?pod0")
  have "Pod_Apps (fst (getBasicPod w p)) = Pod_Apps pod"
    by (cases "getState p")
       (simp_all add: getBasicPod_def r case_prod_beta afterSwitch_apps)
  moreover from r
  have "Pod_Apps pod =
     (case fst (getPodManifest w p) of Inl err \<Rightarrow> [] | Inr (manifest, data) \<Rightarrow> getApplist w manifest)"
    by (auto simp: readManifest_def split: prod.splits sum.splits)
  ultimately show ?thesis by simp
qed

text \<open>
  C5. Without the detail flag, \<^verbatim>\<open>ListPods\<close> returns the error of the walk or, when there
  is none, the basic views of the visited pods that satisfy the filters, in order, each
  with its manifest cleared and every other field as \<^verbatim>\<open>getBasicPod\<close> built it; so no
  returned pod carries manifest bytes. With the detail flag, every returned pod is the
  enriched view of a visited pod that satisfies the filters and, when the manifest of
  that pod could be read, carries its bytes; and the call does return the pods when the
  walk has no error and the app names of the visited pods are valid.
\<close>

theorem ListPods_detail_flag:
  "(\<not> Detail request \<longrightarrow>
      fst (ListPods w store request) =
        (case snd (walkPods w) of
           Some e \<Rightarrow> Return (Inl e)
         | None \<Rightarrow>
             Return (Inr \<lparr>Pods =
               map (\<lambda>p. (fst (getBasicPod w p))\<lparr>Pod_Manifest := None\<rparr>)
                 (filter (\<lambda>p. satisfiesAnyPodFilters (fst (getBasicPod w p)) (Filters request))
                    (fst (walkPods w)))\<rparr>))
      \<and> (\<forall>resp. fst (ListPods w store request) = Return (Inr resp) \<longrightarrow>
             (\<forall>pod\<in>set (Pods resp). Pod_Manifest pod = None)))
   \<and> (Detail request \<longrightarrow>
        (\<forall>resp. fst (ListPods w store request) = Return (Inr resp) \<longrightarrow>
           list_all2
             (\<lambda>p pod. fst (fillAppInfo w store p (fst (getBasicPod w p))) = Return pod
                \<and> (\<forall>manifest data. fst (getPodManifest w p) = Inr (manifest, data) \<longrightarrow>
                       Pod_Manifest pod = Some data))
             (filter (\<lambda>p. satisfiesAnyPodFilters (fst (getBasicPod w p)) (Filters request))
                (fst (walkPods w)))
             (Pods resp))
        \<and> (snd (walkPods w) = None
             \<and> (\<forall>p\<in>set (fst (walkPods w)). \<forall>app\<in>set (Pod_Apps (fst (getBasicPod w p))).
                    validACName w (App_Name app)) \<longrightarrow>
             (\<exists>resp. fst (ListPods w store request) = Return (Inr resp))))"
proof (intro conjI impI allI)
  assume d: "\<not> Detail request"
  show e: "fst (ListPods w store request) =
        (case snd (walkPods w) of
           Some e \<Rightarrow> Return (Inl e)
         | None \<Rightarrow>
             Return (Inr \<lparr>Pods =
               map (\<lambda>p. (fst (getBasicPod w p))\<lparr>Pod_Manifest := None\<rparr>)
                 (filter (\<lambda>p. satisfiesAnyPodFilters (fst (getBasicPod w p)) (Filters request))
                    (fst (walkPods w)))\<rparr>))"
    by (simp add: ListPods_fst listPodsWalk_no_detail [OF d] split: option.splits)
  fix resp
  assume "fst (ListPods w store request) = Return (Inr resp)"
  with e have "Pods resp =
               map (\<lambda>p. (fst (getBasicPod w p))\<lparr>Pod_Manifest := None\<rparr>)
                 (filter (\<lambda>p. satisfiesAnyPodFilters (fst (getBasicPod w p)) (Filters request))
                    (fst (walkPods w)))"
    by (auto split: option.splits)
  then show "\<forall>pod\<in>set (Pods resp). Pod_Manifest pod = None" by auto
next
  fix resp
  assume d: "Detail request" and r: "fst (ListPods w store request) = Return (Inr resp)"
  from r have "fst (listPodsWalk w store request (fst (walkPods w)) []) = Return (Pods resp)"
    by (auto simp: ListPods_fst split: outcome.splits option.splits)
  from listPodsWalk_detail [OF d this]
  have "list_all2 (\<lambda>p pod. fst (fillAppInfo w store p (fst (getBasicPod w p))) = Return pod)
         (filter (\<lambda>p. satisfiesAnyPodFilters (fst (getBasicPod w p)) (Filters request))
            (fst (walkPods w)))
         (Pods resp)"
    by simp
  then show "list_all2
             (\<lambda>p pod. fst (fillAppInfo w store p (fst (getBasicPod w p))) = Return pod
                \<and> (\<forall>manifest data. fst (getPodManifest w p) = Inr (manifest, data) \<longrightarrow>
                       Pod_Manifest pod = Some data))
             (filter (\<lambda>p. satisfiesAnyPodFilters (fst (getBasicPod w p)) (Filters request))
                (fst (walkPods w)))
             (Pods resp)"
  proof (rule list_all2_mono)
    fix p pod
    assume f: "fst (fillAppInfo w store p (fst (getBasicPod w p))) = Return pod"
    have "Pod_Manifest pod = Some data" if "fst (getPodManifest w p) = Inr (manifest, data)"
      for manifest data
      using that fillAppInfo_manifest [OF f] by (simp add: getBasicPod_manifest)
    with f show "fst (fillAppInfo w store p (fst (getBasicPod w p))) = Return pod
                \<and> (\<forall>manifest data. fst (getPodManifest w p) = Inr (manifest, data) \<longrightarrow>
                       Pod_Manifest pod = Some data)"
      by blast
  qed
next
  assume "Detail request"
  assume "snd (walkPods w) = None
             \<and> (\<forall>p\<in>set (fst (walkPods w)). \<forall>app\<in>set (Pod_Apps (fst (getBasicPod w p))).
                    validACName w (App_Name app))"
  then have n: "snd (walkPods w) = None"
    and v: "\<forall>p\<in>set (fst (walkPods w)). \<forall>app\<in>set (Pod_Apps (fst (getBasicPod w p))).
                    validACName w (App_Name app)"
    by simp_all
  from listPodsWalk_returns [OF v, of store request "[]"] obtain out where
    "fst (listPodsWalk w store request (fst (walkPods w)) []) = Return out" by blast
  with n show "\<exists>resp. fst (ListPods w store request) = Return (Inr resp)"
    by (simp add: ListPods_fst)
qed

theorem ListPods_detail_flag_witness:
  "(\<exists>resp. fst (ListPods exampleWorld exampleStore \<lparr>Filters = [], Detail = False\<rparr>) =
             Return (Inr resp)
           \<and> map Pod_Id (Pods resp) = [''uuid-1'', ''uuid-3'', ''uuid-4'']
           \<and> map Pod_Manifest (Pods resp) = [None, None, None])
   \<and> (\<exists>resp. fst (ListPods exampleWorld exampleStore \<lparr>Filters = [], Detail = True\<rparr>) =
             Return (Inr resp)
           \<and> take 2 (map Pod_Manifest (Pods resp)) = [Some ''{pod}'', Some ''{pod}''])"
proof -
  have wk: "fst (walkPods exampleWorld) = [embryoHandle, exitedHandle, emptyHandle]"
    "snd (walkPods exampleWorld) = None"
    by (simp_all add: exampleWorld_def)
  have rid: "Pod_Id (fst (readManifest exampleWorld p pod)) = Pod_Id pod" for p pod
    by (simp add: readManifest_def split: prod.splits sum.splits)
  have ids: "Pod_Id (fst (getBasicPod exampleWorld embryoHandle)) = ''uuid-1''"
    "Pod_Id (fst (getBasicPod exampleWorld emptyHandle)) = ''uuid-4''"
    by (simp_all add: getBasicPod_def embryoHandle_def emptyHandle_def case_prod_beta rid)
  have nd: "\<not> Detail \<lparr>Filters = [], Detail = False\<rparr>" by simp
  from ListPods_detail_flag [of "\<lparr>Filters = [], Detail = False\<rparr>" exampleWorld exampleStore] nd
  have "fst (ListPods exampleWorld exampleStore \<lparr>Filters = [], Detail = False\<rparr>) =
     Return (Inr \<lparr>Pods =
       map (\<lambda>p. (fst (getBasicPod exampleWorld p))\<lparr>Pod_Manifest := None\<rparr>)
         [embryoHandle, exitedHandle, emptyHandle]\<rparr>)"
    by (simp add: wk satisfiesAnyPodFilters_def)
  then have A: "\<exists>resp. fst (ListPods exampleWorld exampleStore \<lparr>Filters = [], Detail = False\<rparr>) =
             Return (Inr resp)
           \<and> map Pod_Id (Pods resp) = [''uuid-1'', ''uuid-3'', ''uuid-4'']
           \<and> map Pod_Manifest (Pods resp) = [None, None, None]"
    by (simp add: ids exited_basic)
  have em: "fst (getPodManifest exampleWorld emptyHandle) = Inl (ErrNotExist ''pod'')"
    by (rule empty_manifest)
  have names: "map App_Name (getApplist exampleWorld exampleManifest) = [''redis'', ''etcd'']"
    by (simp add: getApplist_def exampleManifest_def)
  have valid: "\<forall>app\<in>set (getApplist exampleWorld exampleManifest).
                 validACName exampleWorld (App_Name app)"
    by (simp add: getApplist_def exampleManifest_def exampleWorld_def)
  have v: "\<forall>p\<in>set (fst (walkPods exampleWorld)).
             \<forall>app\<in>set (Pod_Apps (fst (getBasicPod exampleWorld p))).
                validACName exampleWorld (App_Name app)"
    using valid by (simp add: wk getBasicPod_apps embryo_manifest exited_manifest em)
  have d: "Detail \<lparr>Filters = [], Detail = True\<rparr>" by simp
  note t = ListPods_detail_flag [of "\<lparr>Filters = [], Detail = True\<rparr>" exampleWorld exampleStore]
  from t d wk(2) v obtain resp where
    r: "fst (ListPods exampleWorld exampleStore \<lparr>Filters = [], Detail = True\<rparr>) = Return (Inr resp)"
    by blast
  with t d have "list_all2
             (\<lambda>p pod. fst (fillAppInfo exampleWorld exampleStore p
                             (fst (getBasicPod exampleWorld p))) = Return pod
                \<and> (\<forall>manifest data. fst (getPodManifest exampleWorld p) = Inr (manifest, data) \<longrightarrow>
                       Pod_Manifest pod = Some data))
             (filter (\<lambda>p. satisfiesAnyPodFilters (fst (getBasicPod exampleWorld p))
                            (Filters \<lparr>Filters = [], Detail = True\<rparr>))
                (fst (walkPods exampleWorld)))
             (Pods resp)"
    by blast
  then have "take 2 (map Pod_Manifest (Pods resp)) = [Some ''{pod}'', Some ''{pod}'']"
    by (auto simp: wk satisfiesAnyPodFilters_def list_all2_Cons1 embryo_manifest exited_manifest)
  with r have B: "\<exists>resp. fst (ListPods exampleWorld exampleStore \<lparr>Filters = [], Detail = True\<rparr>) =
             Return (Inr resp)
           \<and> take 2 (map Pod_Manifest (Pods resp)) = [Some ''{pod}'', Some ''{pod}'']"
    by (intro exI [of _ resp]) simp
  from A B show ?thesis by (rule conjI)
qed

end
